theory Spec2Isabelle
  imports Complex_Main "HOL-Library.Sublist"
begin

section \<open>Python strings\<close>

text \<open>
  A Python \<^verbatim>\<open>str\<close> is modelled as a \<^typ>\<open>string\<close>: a list of characters, each character
  standing for the code point of the same number (0 to 255). Slices \<^verbatim>\<open>s[i:]\<close> and
  \<^verbatim>\<open>s[:i]\<close> with \<open>i \<ge> 0\<close> are \<^const>\<open>drop\<close> and \<^const>\<open>take\<close>, \<^verbatim>\<open>+\<close> is \<open>@\<close>.
\<close>

definition backslash :: char where
  \<open>backslash = CHR 0x5C\<close>

definition newline :: char where
  \<open>newline = CHR 0x0A\<close>

text \<open>The characters for which \<^verbatim>\<open>str.isspace\<close> holds, which are also those matched by \<^verbatim>\<open>\s\<close>.\<close>

definition is_space :: \<open>char \<Rightarrow> bool\<close> where
  \<open>is_space c \<longleftrightarrow>
     c \<in> set [CHR 0x09, CHR 0x0A, CHR 0x0B, CHR 0x0C, CHR 0x0D, CHR 0x1C, CHR 0x1D, CHR 0x1E,
              CHR 0x1F, CHR 0x20, CHR 0x85, CHR 0xA0]\<close>

text \<open>\<^verbatim>\<open>s.strip()\<close>\<close>

definition strip :: \<open>string \<Rightarrow> string\<close> where
  \<open>strip s = rev (dropWhile is_space (rev (dropWhile is_space s)))\<close>

text \<open>\<^verbatim>\<open>sub in s\<close>\<close>

definition str_in :: \<open>string \<Rightarrow> string \<Rightarrow> bool\<close> where
  \<open>str_in sub s \<longleftrightarrow> sublist sub s\<close>

text \<open>\<^verbatim>\<open>s.find(sub)\<close>, with \<open>None\<close> for Python's \<open>-1\<close>.\<close>

fun str_find :: \<open>string \<Rightarrow> string \<Rightarrow> nat option\<close> where
  \<open>str_find sub [] = (if sub = [] then Some 0 else None)\<close>
| \<open>str_find sub (c # cs) =
     (if prefix sub (c # cs) then Some 0 else map_option Suc (str_find sub cs))\<close>

section \<open>The regular expressions of the extractor\<close>

text \<open>
  The five patterns of \<^verbatim>\<open>extract_latex_from_response\<close> are sequences of three kinds of
  items: a literal (\<^verbatim>\<open>\n\<close> is one), \<^verbatim>\<open>\s*\<close> (greedy), and the lazy group
  \<^verbatim>\<open>(.*?)\<close>. All searches are made with \<^verbatim>\<open>re.IGNORECASE\<close> (the letters of the
  literals are ASCII, and none of them has a match outside ASCII) and the fence searches with
  \<^verbatim>\<open>re.DOTALL\<close>, under which the dot matches every character. The group of the pattern
  for the end of the document is its whole match, of which only the end is used.
\<close>

datatype item = Lit string | Spaces | Lazy_group

definition ascii_lower :: \<open>char \<Rightarrow> char\<close> where
  \<open>ascii_lower c =
     (case map_of (zip ''ABCDEFGHIJKLMNOPQRSTUVWXYZ'' ''abcdefghijklmnopqrstuvwxyz'') c of
        Some l \<Rightarrow> l | None \<Rightarrow> c)\<close>

fun ci_prefix :: \<open>string \<Rightarrow> string \<Rightarrow> bool\<close> where
  \<open>ci_prefix [] s = True\<close>
| \<open>ci_prefix (p # ps) [] = False\<close>
| \<open>ci_prefix (p # ps) (c # cs) = (ascii_lower c = ascii_lower p \<and> ci_prefix ps cs)\<close>

text \<open>
  Backtracking match of a pattern at the start of a text: the result is the text captured by
  the group and the text left after the match. A greedy star tries the longest repetition
  first, the lazy group the shortest.
\<close>

function match_at :: \<open>item list \<Rightarrow> string \<Rightarrow> (string \<times> string) option\<close> where
  \<open>match_at [] s = Some ([], s)\<close>
| \<open>match_at (Lit l # its) s =
     (if ci_prefix l s then match_at its (drop (length l) s) else None)\<close>
| \<open>match_at (Spaces # its) [] = match_at its []\<close>
| \<open>match_at (Spaces # its) (c # cs) =
     (if is_space c
      then (case match_at (Spaces # its) cs of
              Some r \<Rightarrow> Some r
            | None \<Rightarrow> match_at its (c # cs))
      else match_at its (c # cs))\<close>
| \<open>match_at (Lazy_group # its) [] = map_option (\<lambda>(g, r). ([], r)) (match_at its [])\<close>
| \<open>match_at (Lazy_group # its) (c # cs) =
     (case match_at its (c # cs) of
        Some (g, r) \<Rightarrow> Some ([], r)
      | None \<Rightarrow> map_option (\<lambda>(g, r). (c # g, r)) (match_at (Lazy_group # its) cs))\<close>
  by pat_completeness auto
termination
  by (relation \<open>measure (\<lambda>(its, s). length its + length s)\<close>) auto

text \<open>\<^verbatim>\<open>re.search\<close>: the match at the leftmost position that has one.\<close>

fun re_search :: \<open>item list \<Rightarrow> string \<Rightarrow> (string \<times> string) option\<close> where
  \<open>re_search pat [] = match_at pat []\<close>
| \<open>re_search pat (c # cs) =
     (case match_at pat (c # cs) of
        Some r \<Rightarrow> Some r
      | None \<Rightarrow> re_search pat cs)\<close>

section \<open>Content extractor\<close>

datatype exn = Exception string | FileNotFoundError | Other_exception string

definition documentclass :: string where
  \<open>documentclass = backslash # ''documentclass''\<close>

definition begin_document :: string where
  \<open>begin_document = backslash # ''begin{document}''\<close>

definition extract_preamble_from_original :: \<open>string \<Rightarrow> string\<close> where
  \<open>extract_preamble_from_original original_tex =
     (if str_in begin_document original_tex
      then (case str_find begin_document original_tex of
              Some idx \<Rightarrow> take idx original_tex
            | None \<Rightarrow> original_tex)
      else [])\<close>

definition fence_patterns :: \<open>item list list\<close> where
  \<open>fence_patterns =
     [[Lit ''```latex'', Spaces, Lit [newline], Lazy_group, Lit ''```''],
      [Lit ''```tex'', Spaces, Lit [newline], Lazy_group, Lit ''```''],
      [Lit ''```'', Spaces, Lit [newline], Lazy_group, Lit ''```''],
      [Lit ''```'', Lazy_group, Lit ''```'']]\<close>

definition end_doc_pattern :: \<open>item list\<close> where
  \<open>end_doc_pattern = [Lit (backslash # ''end{document}'')]\<close>

text \<open>The loop over the fence patterns, left at the first fence whose content has a marker.\<close>

fun strip_fences :: \<open>item list list \<Rightarrow> string \<Rightarrow> string\<close> where
  \<open>strip_fences [] text = text\<close>
| \<open>strip_fences (pattern # patterns) text =
     (case re_search pattern text of
        Some (group1, rest) \<Rightarrow>
          (let extracted = strip group1
           in if str_in documentclass extracted \<or> str_in begin_document extracted
              then extracted
              else strip_fences patterns text)
      | None \<Rightarrow> strip_fences patterns text)\<close>

definition extraction_error :: exn where
  \<open>extraction_error =
     Exception ''Could not extract valid LaTeX from API response. The model may not have returned proper LaTeX code.''\<close>

definition extract_latex_from_response :: \<open>string \<Rightarrow> string \<Rightarrow> exn + string\<close> where
  \<open>extract_latex_from_response response_text original_tex =
     (let text = strip response_text;
          text = strip_fences fence_patterns text;
          text =
            (if str_in documentclass text
             then (case str_find documentclass text of
                     Some start \<Rightarrow> drop start text
                   | None \<Rightarrow> text)
             else if str_in begin_document text
             then (let body = (case str_find begin_document text of
                                 Some start \<Rightarrow> drop start text
                               | None \<Rightarrow> text);
                       preamble = extract_preamble_from_original original_tex
                   in if preamble \<noteq> [] then preamble @ body else body)
             else text);
          text =
            (case re_search end_doc_pattern text of
               Some (group1, rest) \<Rightarrow> take (length text - length rest) text
             | None \<Rightarrow> text)
      in if \<not> str_in documentclass text \<and> \<not> str_in begin_document text
         then Inl extraction_error
         else Inr text)\<close>

section \<open>Numbers\<close>

text \<open>
  A Python float is modelled by a real number (coordinates and fill ratios are finite), a
  decimal literal by the fraction it writes, and the comparisons by the order of the reals;
  the rounding of the floating-point operations is not modelled. \<^verbatim>\<open>{x:.2f}\<close> and
  \<^verbatim>\<open>round(x, 2)\<close> round the value to the nearest hundredth, a tie going to the even digit.
  They are applied here to the exact quotient where Python applies them to the double
  nearest to it, so the last digit can differ when the quotient is a tie or within the
  rounding error of one: a fill ratio of 88.5 / 100 is printed \<^verbatim>\<open>0.88\<close> by
  \<open>format_2f\<close> and \<^verbatim>\<open>0.89\<close> by Python, whose double for it lies above 0.885. Statements
  about the text of a fill ratio are statements about \<open>format_2f\<close> on the real value.
\<close>

definition round_half_even :: \<open>real \<Rightarrow> int\<close> where
  \<open>round_half_even x =
     (let f = \<lfloor>x\<rfloor>; d = x - of_int f
      in if d < 1 / 2 then f else if d > 1 / 2 then f + 1 else if even f then f else f + 1)\<close>

definition digit_char :: \<open>nat \<Rightarrow> char\<close> where
  \<open>digit_char d = ''0123456789'' ! (d mod 10)\<close>

function str_nat :: \<open>nat \<Rightarrow> string\<close> where
  \<open>str_nat n = (if n < 10 then [digit_char n] else str_nat (n div 10) @ [digit_char (n mod 10)])\<close>
  by pat_completeness auto
termination
  by (relation \<open>measure id\<close>) auto

declare str_nat.simps [simp del]

definition format_2f :: \<open>real \<Rightarrow> string\<close> where
  \<open>format_2f x =
     (let n = nat (round_half_even (\<bar>x\<bar> * 100))
      in (if x < 0 then ''-'' else []) @ str_nat (n div 100) @ ''.''
         @ [digit_char (n div 10 mod 10), digit_char (n mod 10)])\<close>

definition round_2 :: \<open>real \<Rightarrow> real\<close> where
  \<open>round_2 x = of_int (round_half_even (x * 100)) / 100\<close>

section \<open>Layout analyzer\<close>

text \<open>
  What PyMuPDF reports: a text block is the tuple \<^verbatim>\<open>(x0, y0, x1, y1, text, block_no, block_type)\<close>,
  a page has the height of its rectangle and its text blocks, and opening a path gives the pages
  of the document. Every call of the library can raise.
\<close>

record block =
  b_x0 :: real
  b_y0 :: real
  b_x1 :: real
  b_y1 :: real
  b_text :: string
  b_no :: nat
  b_type :: nat

record fitz_page =
  rect_height :: real
  text_blocks :: \<open>exn + block list\<close>

type_synonym fitz_document = \<open>fitz_page list\<close>

text \<open>The loop over the blocks: the pair of \<^verbatim>\<open>content_top\<close> and \<^verbatim>\<open>content_bottom\<close>.\<close>

definition content_bounds :: \<open>real \<Rightarrow> block list \<Rightarrow> real \<times> real\<close> where
  \<open>content_bounds page_height blocks =
     fold (\<lambda>b (content_top, content_bottom). (min content_top (b_y0 b), max content_bottom (b_y1 b)))
       blocks (page_height, 0)\<close>

text \<open>The body of the \<^verbatim>\<open>try\<close> statement of \<^verbatim>\<open>calculate_fill_ratio\<close>.\<close>

definition measure_fill_ratio :: \<open>(string \<Rightarrow> exn + fitz_document) \<Rightarrow> string \<Rightarrow> exn + real\<close> where
  \<open>measure_fill_ratio fitz_open pdf_path =
     (case fitz_open pdf_path of
        Inl e \<Rightarrow> Inl e
      | Inr doc \<Rightarrow>
          (case doc of
             [] \<Rightarrow> Inl (Other_exception ''IndexError'')
           | page # _ \<Rightarrow>
               (let page_height = rect_height page
                in case text_blocks page of
                     Inl e \<Rightarrow> Inl e
                   | Inr blocks \<Rightarrow>
                       if blocks = [] then Inr 0.5
                       else
                         (let (content_top, content_bottom) = content_bounds page_height blocks;
                              top_margin = content_top;
                              bottom_margin = 36;
                              usable_bottom = page_height - bottom_margin;
                              usable_height = usable_bottom - top_margin;
                              content_used = content_bottom - top_margin;
                              fill_ratio =
                                (if usable_height > 0 then content_used / usable_height else 0.9)
                          in Inr (min (max fill_ratio 0.0) 1.0)))))\<close>

definition calculate_fill_ratio :: \<open>(string \<Rightarrow> exn + fitz_document) \<Rightarrow> string \<Rightarrow> real\<close> where
  \<open>calculate_fill_ratio fitz_open pdf_path =
     (case measure_fill_ratio fitz_open pdf_path of
        Inr fill_ratio \<Rightarrow> fill_ratio
      | Inl e \<Rightarrow> 0.9)\<close>

section \<open>State and collaborators\<close>

text \<open>A PDF file, as PyPDF2 counts its pages and as PyMuPDF opens it.\<close>

record pdf =
  reader_pages :: \<open>exn + nat\<close>
  fitz_view :: \<open>exn + fitz_document\<close>

record completed_process =
  returncode :: int
  stderr :: string
  stdout :: string

record http_response =
  status_code :: nat
  response_text :: string
  message_content :: \<open>exn + string\<close>

text \<open>
  The collaborators outside the repository act on a world of type \<open>'w\<close>: the chat completion
  service (called with the API key, the system prompt and the prompt), and the \<^verbatim>\<open>pdflatex\<close>
  process (called with the file stem and the source), which leaves a PDF file or none.
  \<open>message_content\<close> is the value of \<^verbatim>\<open>response.json()['choices'][0]['message']['content']\<close>.
\<close>

record 'w env =
  perplexity_api_key :: \<open>string option\<close>
  requests_post :: \<open>string \<Rightarrow> string \<Rightarrow> string \<Rightarrow> 'w \<Rightarrow> (exn + http_response) \<times> 'w\<close>
  run_pdflatex :: \<open>string \<Rightarrow> string \<Rightarrow> 'w \<Rightarrow> (exn + completed_process \<times> pdf option) \<times> 'w\<close>

text \<open>
  The state of the server: the dictionary \<^verbatim>\<open>current_resume\<close>, the files of
  \<^verbatim>\<open>COMPILED_FOLDER\<close> by name, the content of \<^verbatim>\<open>RAG_FILE\<close> if the file exists, and the world.
  Writing the server's own files is taken to succeed.
\<close>

record resume =
  content :: string
  filename :: string
  file_type :: string

record 'w state =
  current_resume :: resume
  compiled_folder :: \<open>string \<rightharpoonup> pdf\<close>
  rag_file :: \<open>string option\<close>
  world :: 'w

definition load_rag_context :: \<open>'w state \<Rightarrow> string\<close> where
  \<open>load_rag_context st = (case rag_file st of Some text \<Rightarrow> text | None \<Rightarrow> [])\<close>

definition query_perplexity ::
  \<open>'w env \<Rightarrow> string \<Rightarrow> string \<Rightarrow> 'w state \<Rightarrow> (exn + string) \<times> 'w state\<close> where
  \<open>query_perplexity env prompt system_prompt st =
     (case perplexity_api_key env of
        None \<Rightarrow> (Inl (Exception ''PERPLEXITY_API_KEY environment variable not set''), st)
      | Some api_key \<Rightarrow>
          if api_key = []
          then (Inl (Exception ''PERPLEXITY_API_KEY environment variable not set''), st)
          else
            (case requests_post env api_key system_prompt prompt (world st) of
               (Inl e, w) \<Rightarrow> (Inl e, st\<lparr>world := w\<rparr>)
             | (Inr response, w) \<Rightarrow>
                 if status_code response \<noteq> 200
                 then (Inl (Exception (''Perplexity API error: '' @ response_text response)),
                       st\<lparr>world := w\<rparr>)
                 else (message_content response, st\<lparr>world := w\<rparr>)))\<close>

section \<open>Renderer\<close>

definition pdflatex_not_found :: exn where
  \<open>pdflatex_not_found =
     Exception (''pdflatex binary not found. Install a LaTeX distribution (e.g., TeX Live or MiKTeX) ''
       @ ''and ensure `pdflatex` is on your PATH.'')\<close>

text \<open>The handler \<^verbatim>\<open>except FileNotFoundError\<close> around the body of \<^verbatim>\<open>compile_latex_to_pdf\<close>.\<close>

definition except_file_not_found :: \<open>exn \<Rightarrow> exn\<close> where
  \<open>except_file_not_found e = (case e of FileNotFoundError \<Rightarrow> pdflatex_not_found | _ \<Rightarrow> e)\<close>

definition compile_latex_to_pdf ::
  \<open>'w env \<Rightarrow> string \<Rightarrow> string \<Rightarrow> bool \<Rightarrow> 'w state \<Rightarrow> (exn + nat \<times> real \<times> string option) \<times> 'w state\<close>
  where
  \<open>compile_latex_to_pdf env tex_content filename_stem save_final st =
     (case run_pdflatex env filename_stem tex_content (world st) of
        (Inl e, w) \<Rightarrow> (Inl (except_file_not_found e), st\<lparr>world := w\<rparr>)
      | (Inr (result, pdf_file), w) \<Rightarrow>
          (let st = st\<lparr>world := w\<rparr>
           in if returncode result \<noteq> 0
              then
                (let error_message =
                       (if stderr result \<noteq> [] then stderr result
                        else if stdout result \<noteq> [] then stdout result
                        else ''Unknown LaTeX compilation error'')
                 in (Inl (Exception (''LaTeX compilation failed: '' @ take 300 (strip error_message))),
                     st))
              else
                (case pdf_file of
                   None \<Rightarrow> (Inl (Exception ''LaTeX compilation did not produce a PDF file.''), st)
                 | Some produced \<Rightarrow>
                     (case reader_pages produced of
                        Inl e \<Rightarrow> (Inl (except_file_not_found e), st)
                      | Inr page_count \<Rightarrow>
                          (let fill_ratio =
                                 calculate_fill_ratio (\<lambda>path. fitz_view produced)
                                   (filename_stem @ ''.pdf'')
                           in if \<not> save_final then (Inr (page_count, fill_ratio, None), st)
                              else
                                (let final_filename = filename_stem @ ''.pdf''
                                 in (Inr (page_count, fill_ratio, Some final_filename),
                                     st\<lparr>compiled_folder :=
                                          (compiled_folder st)(final_filename \<mapsto> produced)\<rparr>)))))))\<close>

section \<open>Correction requester\<close>

text \<open>The prompts of \<^verbatim>\<open>shorten_resume\<close> and \<^verbatim>\<open>expand_resume\<close>.\<close>

definition shorten_system_prompt :: \<open>string\<close> where
  \<open>shorten_system_prompt =
       ''You are a resume editor. The resume is too dense/long and needs to be shortened slightly.\<newline>''
     @ ''\<newline>''
     @ ''Make SMALL targeted cuts - don't dramatically change the resume.\<newline>''
     @ ''\<newline>''
     @ ''CUTTING PRIORITY:\<newline>''
     @ ''1. Tighten verbose phrases - remove filler words\<newline>''
     @ ''2. Shorten the longest bullet points\<newline>''
     @ ''3. Remove redundant details\<newline>''
     @ ''4. Cut least relevant skills\<newline>''
     @ ''\<newline>''
     @ ''PRESERVE:\<newline>''
     @ ''- All job-relevant qualifications and keywords\<newline>''
     @ ''- Key achievements and metrics\<newline>''
     @ ''- Overall structure (3 experiences, 2 projects)\<newline>''
     @ ''\<newline>''
     @ ''Return ONLY the LaTeX code. No explanations.''\<close>

definition shorten_prompt :: \<open>string \<Rightarrow> string \<Rightarrow> real \<Rightarrow> string\<close> where
  \<open>shorten_prompt latex_content job_description current_fill_ratio =
       ''This resume needs to be SLIGHTLY shorter. Current fill ratio: ''
     @ format_2f current_fill_ratio
     @ '' (target: 0.88-0.96)\<newline>''
     @ ''\<newline>''
     @ ''Make small cuts to reduce length by about 5-10%.\<newline>''
     @ ''\<newline>''
     @ ''Job Description (keep these qualifications):\<newline>''
     @ take 1500 job_description
     @ ''\<newline>''
     @ ''\<newline>''
     @ ''Current LaTeX:\<newline>''
     @ latex_content
     @ ''\<newline>''
     @ ''\<newline>''
     @ ''Return slightly shortened LaTeX. Keep all sections, just tighten the content.''\<close>

definition expand_system_prompt :: \<open>string\<close> where
  \<open>expand_system_prompt =
       ''You are a resume editor. The resume has too much whitespace and needs more content.\<newline>''
     @ ''\<newline>''
     @ ''EXPAND by:\<newline>''
     @ ''1. Add more detail to existing bullet points - elaborate on impact, context, technologies\<newline>''
     @ ''2. Add an additional bullet to experiences that only have 2\<newline>''
     @ ''3. Expand project descriptions with more technical detail\<newline>''
     @ ''4. Add relevant skills that match the job description\<newline>''
     @ ''\<newline>''
     @ ''RULES:\<newline>''
     @ ''- Keep 3 experiences, 2 projects structure\<newline>''
     @ ''- Each experience should have 2-3 bullets\<newline>''
     @ ''- Each project should have 1-2 bullets\<newline>''
     @ ''- Stay grounded in the candidate's background - embellish but don't fabricate\<newline>''
     @ ''\<newline>''
     @ ''Return ONLY the LaTeX code. No explanations.''\<close>

definition expand_prompt :: \<open>string \<Rightarrow> string \<Rightarrow> real \<Rightarrow> string\<close> where
  \<open>expand_prompt latex_content job_description current_fill_ratio =
       ''This resume has too much whitespace. Current fill ratio: ''
     @ format_2f current_fill_ratio
     @ '' (target: 0.88-0.96)\<newline>''
     @ ''\<newline>''
     @ ''Add more content to fill the page better - about 10-15% more content.\<newline>''
     @ ''\<newline>''
     @ ''Job Description (emphasize these qualifications):\<newline>''
     @ take 1500 job_description
     @ ''\<newline>''
     @ ''\<newline>''
     @ ''Current LaTeX (too sparse):\<newline>''
     @ latex_content
     @ ''\<newline>''
     @ ''\<newline>''
     @ ''Return expanded LaTeX with more detail. Fill the page better while keeping it professional.''\<close>

definition shorten_resume ::
  \<open>'w env \<Rightarrow> string \<Rightarrow> string \<Rightarrow> string \<Rightarrow> real \<Rightarrow> 'w state \<Rightarrow> (exn + string) \<times> 'w state\<close> where
  \<open>shorten_resume env latex_content original_preamble job_description current_fill_ratio st =
     (case query_perplexity env
             (shorten_prompt latex_content job_description current_fill_ratio)
             shorten_system_prompt st of
        (Inl e, st) \<Rightarrow> (Inl e, st)
      | (Inr raw_response, st) \<Rightarrow>
          (extract_latex_from_response raw_response original_preamble, st))\<close>

definition expand_resume ::
  \<open>'w env \<Rightarrow> string \<Rightarrow> string \<Rightarrow> string \<Rightarrow> real \<Rightarrow> 'w state \<Rightarrow> (exn + string) \<times> 'w state\<close> where
  \<open>expand_resume env latex_content original_preamble job_description current_fill_ratio st =
     (case query_perplexity env
             (expand_prompt latex_content job_description current_fill_ratio)
             expand_system_prompt st of
        (Inl e, st) \<Rightarrow> (Inl e, st)
      | (Inr raw_response, st) \<Rightarrow>
          (extract_latex_from_response raw_response original_preamble, st))\<close>

section \<open>Optimization loop\<close>

definition MIN_FILL_RATIO :: real where
  \<open>MIN_FILL_RATIO = 0.88\<close>

definition MAX_FILL_RATIO :: real where
  \<open>MAX_FILL_RATIO = 0.96\<close>

definition max_optimization_attempts :: nat where
  \<open>max_optimization_attempts = 5\<close>

text \<open>
  The tests of one iteration, in the order of the source: the page count first, then the
  fill ratio against the two thresholds.
\<close>

datatype verdict = Too_long | Too_sparse | Too_dense | In_range

definition evaluate :: \<open>nat \<Rightarrow> real \<Rightarrow> verdict\<close> where
  \<open>evaluate page_count fill_ratio =
     (if page_count > 1 then Too_long
      else if fill_ratio < MIN_FILL_RATIO then Too_sparse
      else if fill_ratio > MAX_FILL_RATIO then Too_dense
      else In_range)\<close>

text \<open>
  What the iteration then does: a correction (\<^verbatim>\<open>continue\<close>) while attempts are left, the
  \<^verbatim>\<open>break\<close> after the warning that the document could not fit, or the \<^verbatim>\<open>break\<close> at the
  end of the body, after the message of success.
\<close>

datatype adjustment = Shortened | Expanded

datatype decision = Adjust adjustment | Stop_could_not_fit | Stop_optimized

definition loop_decision :: \<open>nat \<Rightarrow> nat \<Rightarrow> real \<Rightarrow> decision\<close> where
  \<open>loop_decision attempt page_count fill_ratio =
     (case evaluate page_count fill_ratio of
        Too_long \<Rightarrow>
          if attempt < max_optimization_attempts then Adjust Shortened else Stop_could_not_fit
      | Too_sparse \<Rightarrow>
          if attempt < max_optimization_attempts then Adjust Expanded else Stop_optimized
      | Too_dense \<Rightarrow>
          if attempt < max_optimization_attempts then Adjust Shortened else Stop_optimized
      | In_range \<Rightarrow> Stop_optimized)\<close>

record loop_vars =
  tailored_content :: string
  adjustment_count :: nat
  adjustment_type :: \<open>adjustment option\<close>

datatype control = Continue loop_vars | Break loop_vars

text \<open>One iteration of the \<^verbatim>\<open>for\<close> loop.\<close>

definition loop_iteration ::
  \<open>'w env \<Rightarrow> string \<Rightarrow> string \<Rightarrow> nat \<Rightarrow> loop_vars \<Rightarrow> 'w state \<Rightarrow> (exn + control) \<times> 'w state\<close> where
  \<open>loop_iteration env job_description filename_stem attempt vars st =
     (case compile_latex_to_pdf env (tailored_content vars) filename_stem False st of
        (Inl e, st) \<Rightarrow> (Inl e, st)
      | (Inr (page_count, fill_ratio, final_path), st) \<Rightarrow>
          (case loop_decision attempt page_count fill_ratio of
             Adjust Shortened \<Rightarrow>
               (case shorten_resume env (tailored_content vars) (content (current_resume st))
                       job_description fill_ratio st of
                  (Inl e, st) \<Rightarrow> (Inl e, st)
                | (Inr new_content, st) \<Rightarrow>
                    (Inr (Continue
                       (vars\<lparr>adjustment_count := adjustment_count vars + 1,
                             adjustment_type := Some Shortened,
                             tailored_content := new_content\<rparr>)), st))
           | Adjust Expanded \<Rightarrow>
               (case expand_resume env (tailored_content vars) (content (current_resume st))
                       job_description fill_ratio st of
                  (Inl e, st) \<Rightarrow> (Inl e, st)
                | (Inr new_content, st) \<Rightarrow>
                    (Inr (Continue
                       (vars\<lparr>adjustment_count := adjustment_count vars + 1,
                             adjustment_type := Some Expanded,
                             tailored_content := new_content\<rparr>)), st))
           | Stop_could_not_fit \<Rightarrow> (Inr (Break vars), st)
           | Stop_optimized \<Rightarrow> (Inr (Break vars), st)))\<close>

text \<open>The loop \<^verbatim>\<open>for attempt in range(max_optimization_attempts + 1)\<close>, over the list of attempts.\<close>

fun optimization_loop ::
  \<open>'w env \<Rightarrow> string \<Rightarrow> string \<Rightarrow> nat list \<Rightarrow> loop_vars \<Rightarrow> 'w state \<Rightarrow> (exn + loop_vars) \<times> 'w state\<close>
  where
  \<open>optimization_loop env job_description filename_stem [] vars st = (Inr vars, st)\<close>
| \<open>optimization_loop env job_description filename_stem (attempt # attempts) vars st =
     (case loop_iteration env job_description filename_stem attempt vars st of
        (Inl e, st) \<Rightarrow> (Inl e, st)
      | (Inr (Break vars), st) \<Rightarrow> (Inr vars, st)
      | (Inr (Continue vars), st) \<Rightarrow>
          optimization_loop env job_description filename_stem attempts vars st)\<close>

subsection \<open>Correction rounds\<close>

text \<open>
  A correction round as the specification describes it, for comparison with the loop: the
  current source is rendered without being stored; the render is not acceptable (more than
  one page: shorten; otherwise a fill ratio below 0.88: expand; otherwise a fill ratio above
  0.96: shorten); the service is sent one request, with the prompts of that direction, the
  current source, the job description and the fill ratio; and the document extracted from its
  answer replaces the source. The round is \<open>None\<close> when the render fails or is acceptable
  and when the request or the extraction fails.
\<close>

definition correction_round ::
  \<open>'w env \<Rightarrow> string \<Rightarrow> string \<Rightarrow> loop_vars \<Rightarrow> 'w state \<Rightarrow> (loop_vars \<times> 'w state) option\<close> where
  \<open>correction_round env job_description filename_stem vars st =
     (case compile_latex_to_pdf env (tailored_content vars) filename_stem False st of
        (Inl e, st1) \<Rightarrow> None
      | (Inr (page_count, fill_ratio, final_path), st1) \<Rightarrow>
          (case (if page_count > 1 then Some Shortened
                 else if fill_ratio < 0.88 then Some Expanded
                 else if fill_ratio > 0.96 then Some Shortened
                 else None) of
             None \<Rightarrow> None
           | Some direction \<Rightarrow>
               (case perplexity_api_key env of
                  None \<Rightarrow> None
                | Some api_key \<Rightarrow>
                    (case requests_post env api_key
                            (case direction of
                               Shortened \<Rightarrow> shorten_system_prompt
                             | Expanded \<Rightarrow> expand_system_prompt)
                            (case direction of
                               Shortened \<Rightarrow>
                                 shorten_prompt (tailored_content vars) job_description fill_ratio
                             | Expanded \<Rightarrow>
                                 expand_prompt (tailored_content vars) job_description fill_ratio)
                            (world st1) of
                       (Inl e, w) \<Rightarrow> None
                     | (Inr response, w) \<Rightarrow>
                         (case message_content response of
                            Inl e \<Rightarrow> None
                          | Inr raw \<Rightarrow>
                              (case extract_latex_from_response raw
                                      (content (current_resume st1)) of
                                 Inl e \<Rightarrow> None
                               | Inr new_content \<Rightarrow>
                                   if api_key \<noteq> [] \<and> status_code response = 200
                                   then Some (vars\<lparr>adjustment_count := adjustment_count vars + 1,
                                                   adjustment_type := Some direction,
                                                   tailored_content := new_content\<rparr>,
                                              st1\<lparr>world := w\<rparr>)
                                   else None))))))\<close>

text \<open>A number of correction rounds in a row.\<close>

fun correction_rounds ::
  \<open>'w env \<Rightarrow> string \<Rightarrow> string \<Rightarrow> nat \<Rightarrow> loop_vars \<Rightarrow> 'w state \<Rightarrow> (loop_vars \<times> 'w state) option\<close>
  where
  \<open>correction_rounds env job_description filename_stem 0 vars st = Some (vars, st)\<close>
| \<open>correction_rounds env job_description filename_stem (Suc n) vars st =
     (case correction_round env job_description filename_stem vars st of
        None \<Rightarrow> None
      | Some (vars', st') \<Rightarrow> correction_rounds env job_description filename_stem n vars' st')\<close>

section \<open>The tailoring request\<close>

text \<open>
  The prompts of the tailoring call. Their arrows (U+2192) are written as the three bytes of
  their UTF-8 encoding.
\<close>

definition tailor_system_prompt :: \<open>string\<close> where
  \<open>tailor_system_prompt =
       ''You are a resume tailoring assistant optimizing for BOTH ATS systems AND human recruiters. Your goal is to make the candidate appear as a strong fit for the role. You can embellish and reframe experiences generously, but stay grounded in the candidate's actual background.\<newline>''
     @ ''\<newline>''
     @ ''CORE DIRECTIVES:\<newline>''
     @ ''\<newline>''
     @ ''1. QUALIFICATIONS THROUGHOUT (TOP PRIORITY): Every required qualification from the job description should feel DEMONSTRATED through the bullet points, not just listed in skills. Rewrite experience bullets to naturally showcase the required technologies, methodologies, and competencies. The reader should finish each section thinking "this person clearly has X qualification."\<newline>''
     @ ''\<newline>''
     @ ''2. THEME SATURATION: The job's dominant theme (e.g., systems programming, ML, networking) should radiate through EVERY bullet point. Reframe existing work to emphasize relevant angles. If a bullet doesn't connect to the job's core theme, rewrite it until it does or cut it.\<newline>''
     @ ''\<newline>''
     @ ''3. FILL ONE PAGE COMPLETELY: The resume MUST be exactly one page - no more, no less. Fill the page edge-to-edge with relevant content. If there's whitespace at the bottom, add more detail to bullets, include additional relevant projects, or expand descriptions. Don't leave empty space.\<newline>''
     @ ''\<newline>''
     @ ''4. ATS OPTIMIZATION:\<newline>''
     @ ''   - Include EXACT keywords and phrases from the job description (titles, technologies, methodologies)\<newline>''
     @ ''   - Use standard section headers the ATS expects (Experience, Education, Skills, Projects)\<newline>''
     @ ''   - Spell out acronyms once, then use abbreviation (e.g., "Machine Learning (ML)")\<newline>''
     @ ''   - Include a dedicated Skills/Technologies section with comma-separated keywords for easy parsing\<newline>''
     @ ''   - Avoid formatting that breaks ATS: no tables, no multi-column layouts, no text boxes\<newline>''
     @ ''\<newline>''
     @ ''5. RESUME STRUCTURE (STRICT):\<newline>''
     @ ''   - EXPERIENCE SECTION: Exactly 3 roles, each with 2-3 bullet points\<newline>''
     @ ''   - PROJECTS SECTION: Exactly 2 projects, each with 1-2 bullet points\<newline>''
     @ ''   - Each bullet tells a story: ACTION VERB ''
     @ [CHR 0xE2, CHR 0x86, CHR 0x92]
     @ '' what you did ''
     @ [CHR 0xE2, CHR 0x86, CHR 0x92]
     @ '' IMPACT/RESULT\<newline>''
     @ ''   - Lead each role with the most relevant/impressive achievement for THIS job\<newline>''
     @ ''   - Write naturally - keyword stuffing is obvious; weave terms into compelling narratives\<newline>''
     @ ''\<newline>''
     @ ''6. CONFIDENT LANGUAGE: Strong, assertive phrasing. "Contributed to" ''
     @ [CHR 0xE2, CHR 0x86, CHR 0x92]
     @ '' "Led". "Familiar with" ''
     @ [CHR 0xE2, CHR 0x86, CHR 0x92]
     @ '' "Proficient in". "Helped" ''
     @ [CHR 0xE2, CHR 0x86, CHR 0x92]
     @ '' "Drove". Never hedge.\<newline>''
     @ ''\<newline>''
     @ ''7. QUANTIFY STRATEGICALLY: Add metrics to ~50% of bullets - the most impactful ones. Not every bullet needs a number. Use metrics for scale, performance gains, and team size. Leave some bullets as pure narrative to avoid looking formulaic.\<newline>''
     @ ''\<newline>''
     @ ''8. MAINTAIN BELIEVABILITY: Embellishment is fine, outright fabrication should be rare. Stretch the truth on scope/impact, upgrade titles slightly, claim proficiency in tools they've touched briefly - but don't invent entire roles or major projects from nothing. The candidate must be able to speak to everything on the resume.\<newline>''
     @ ''\<newline>''
     @ ''9. DO NOT FABRICATE COURSEWORK: Only list courses that appear in the original resume or RAG context. You can reword course names slightly but don't invent courses.\<newline>''
     @ ''\<newline>''
     @ ''10. DO NOT COMBINE PROJECTS: Keep projects separate. If you need fewer projects, pick the most relevant ones and tailor them individually. Never merge two projects into one hybrid project.\<newline>''
     @ ''\<newline>''
     @ ''11. PRESERVE LATEX STRUCTURE: Keep the document compilable. Don't break formatting commands.''\<close>

definition tailor_prompt :: \<open>string \<Rightarrow> string \<Rightarrow> string \<Rightarrow> string\<close> where
  \<open>tailor_prompt resume_content rag_context job_description =
       ''## Current Resume:\<newline>''
     @ resume_content
     @ ''\<newline>''
     @ ''\<newline>''
     @ ''## Additional Background Information (use this to swap in relevant experiences/skills):\<newline>''
     @ (if rag_context \<noteq> [] then rag_context else ''No additional context provided.'')
     @ ''\<newline>''
     @ ''\<newline>''
     @ ''## Job Description to Tailor For:\<newline>''
     @ job_description
     @ ''\<newline>''
     @ ''\<newline>''
     @ ''## Instructions:\<newline>''
     @ ''Rewrite this resume so every qualification from the job description feels DEMONSTRATED through the narrative:\<newline>''
     @ ''\<newline>''
     @ ''STRICT STRUCTURE:\<newline>''
     @ ''- 3 Experience entries with 2-4 bullets each\<newline>''
     @ ''- 2 Project entries with 1-2 bullets each\<newline>''
     @ ''\<newline>''
     @ ''1. WEAVE QUALIFICATIONS INTO BULLETS (TOP PRIORITY) - Show skills in action through experience descriptions\<newline>''
     @ ''2. REWRITE every bullet: ACTION VERB ''
     @ [CHR 0xE2, CHR 0x86, CHR 0x92]
     @ '' relevant context ''
     @ [CHR 0xE2, CHR 0x86, CHR 0x92]
     @ '' IMPACT\<newline>''
     @ ''3. FILL THE ENTIRE PAGE - adjust bullet length/detail to fill the page with no whitespace\<newline>''
     @ ''4. ADD METRICS SELECTIVELY - quantify ~50% of bullets\<newline>''
     @ ''5. UPGRADE weak language to confident assertions\<newline>''
     @ ''6. Every bullet should make the reader think "they've done exactly what we need"\<newline>''
     @ ''\<newline>''
     @ ''Use the additional background to pull in relevant details. Embellish generously but stay grounded in real experience.\<newline>''
     @ ''\<newline>''
     @ ''CRITICAL OUTPUT FORMAT: Return ONLY the raw LaTeX code starting with ''
     @ [backslash]
     @ ''documentclass and ending with ''
     @ [backslash]
     @ ''end{document}. No markdown, no explanations, no code fences. Just valid, compilable LaTeX that fits on ONE page.''\<close>

text \<open>
  \<^verbatim>\<open>Path(path).stem\<close>, for paths with \<^verbatim>\<open>/\<close> as separator: the name is the last component
  that is neither empty nor a single dot, and the stem is the name without its last suffix.
\<close>

fun split_on :: \<open>char \<Rightarrow> string \<Rightarrow> string list\<close> where
  \<open>split_on sep [] = [[]]\<close>
| \<open>split_on sep (c # cs) =
     (if c = sep then [] # split_on sep cs
      else (case split_on sep cs of
              [] \<Rightarrow> [[c]]
            | part # parts \<Rightarrow> (c # part) # parts))\<close>

definition path_name :: \<open>string \<Rightarrow> string\<close> where
  \<open>path_name path =
     (let parts = filter (\<lambda>part. part \<noteq> [] \<and> part \<noteq> ''.'') (split_on (CHR ''/'') path)
      in if parts = [] then [] else last parts)\<close>

definition path_stem :: \<open>string \<Rightarrow> string\<close> where
  \<open>path_stem path =
     (let name = path_name path;
          after_dot = length (takeWhile (\<lambda>c. c \<noteq> CHR ''.'') (rev name))
      in if after_dot < length name \<and> 0 < length name - 1 - after_dot \<and> 0 < after_dot
         then take (length name - 1 - after_dot) name
         else name)\<close>

record payload =
  json_original_filename :: string
  json_file_type :: string
  json_tailored_resume :: string
  json_page_count :: nat
  json_fill_ratio :: real
  json_was_adjusted :: bool
  json_adjustment_count :: nat
  json_adjustment_type :: \<open>adjustment option\<close>
  json_compiled_pdf_url :: string

text \<open>
  The answers of the route: an error of the request (status 400), the message of an exception
  (status 500), or the payload of a successful run.
\<close>

datatype response = Bad_request string | Server_error exn | Success payload

text \<open>\<^verbatim>\<open>Path(current_resume['filename']).stem or "resume"\<close>\<close>

definition document_stem :: \<open>resume \<Rightarrow> string\<close> where
  \<open>document_stem r = (if path_stem (filename r) \<noteq> [] then path_stem (filename r) else ''resume'')\<close>

text \<open>The body of the \<^verbatim>\<open>try\<close> statement of \<^verbatim>\<open>tailor_resume\<close>.\<close>

definition tailor_run ::
  \<open>'w env \<Rightarrow> string \<Rightarrow> string \<Rightarrow> 'w state \<Rightarrow> (exn + payload) \<times> 'w state\<close> where
  \<open>tailor_run env job_description rag_context st =
     (case query_perplexity env
             (tailor_prompt (content (current_resume st)) rag_context job_description)
             tailor_system_prompt st of
        (Inl e, st) \<Rightarrow> (Inl e, st)
      | (Inr raw_response, st) \<Rightarrow>
          (case extract_latex_from_response raw_response (content (current_resume st)) of
             Inl e \<Rightarrow> (Inl e, st)
           | Inr extracted \<Rightarrow>
               (let filename_stem = document_stem (current_resume st)
                in case optimization_loop env job_description filename_stem
                          [0..<max_optimization_attempts + 1]
                          \<lparr>tailored_content = extracted, adjustment_count = 0,
                           adjustment_type = None\<rparr> st of
                     (Inl e, st) \<Rightarrow> (Inl e, st)
                   | (Inr vars, st) \<Rightarrow>
                       (case compile_latex_to_pdf env (tailored_content vars) filename_stem True st of
                          (Inl e, st) \<Rightarrow> (Inl e, st)
                        | (Inr (page_count, fill_ratio, compiled_path), st) \<Rightarrow>
                            (case compiled_path of
                               None \<Rightarrow> (Inl (Other_exception ''AttributeError''), st)
                             | Some name \<Rightarrow>
                                 (Inr \<lparr>json_original_filename = filename (current_resume st),
                                       json_file_type = file_type (current_resume st),
                                       json_tailored_resume = tailored_content vars,
                                       json_page_count = page_count,
                                       json_fill_ratio = round_2 fill_ratio,
                                       json_was_adjusted = (adjustment_count vars > 0),
                                       json_adjustment_count = adjustment_count vars,
                                       json_adjustment_type = adjustment_type vars,
                                       json_compiled_pdf_url = ''/compiled/'' @ name\<rparr>,
                                  st))))))\<close>

text \<open>
  The route \<^verbatim>\<open>/tailor\<close>. The JSON body of the request is absent or a dictionary of strings.
\<close>

definition tailor_resume ::
  \<open>'w env \<Rightarrow> (string \<rightharpoonup> string) option \<Rightarrow> 'w state \<Rightarrow> response \<times> 'w state\<close> where
  \<open>tailor_resume env data st =
     (case data of
        None \<Rightarrow> (Bad_request ''No job description provided'', st)
      | Some json \<Rightarrow>
          (case json ''job_description'' of
             None \<Rightarrow> (Bad_request ''No job description provided'', st)
           | Some job_description \<Rightarrow>
               if content (current_resume st) = []
               then (Bad_request ''No resume uploaded. Please upload a resume first.'', st)
               else
                 (case tailor_run env job_description (load_rag_context st) st of
                    (Inl e, st) \<Rightarrow> (Server_error e, st)
                  | (Inr result, st) \<Rightarrow> (Success result, st))))\<close>

section \<open>Sample collaborators\<close>

text \<open>
  Concrete collaborators on which the theorems below are instantiated: a PDF of the given
  number of pages whose first page, 136 points high, has one text block from the top of the
  page down to \<open>bottom\<close> (so that its fill ratio is \<open>bottom / 100\<close>); a service that always
  answers with the same reply and a \<^verbatim>\<open>pdflatex\<close> that always produces the same PDF, in a
  world that records the prompts sent to the service.
\<close>

definition sample_pdf :: \<open>nat \<Rightarrow> real \<Rightarrow> pdf\<close> where
  \<open>sample_pdf pages bottom =
     \<lparr>reader_pages = Inr pages,
      fitz_view =
        Inr [\<lparr>rect_height = 136,
              text_blocks =
                Inr [\<lparr>b_x0 = 0, b_y0 = 0, b_x1 = 100, b_y1 = bottom, b_text = ''text'',
                      b_no = 0, b_type = 0\<rparr>]\<rparr>]\<rparr>\<close>

definition sample_env :: \<open>pdf \<Rightarrow> string \<Rightarrow> (string list) env\<close> where
  \<open>sample_env produced reply =
     \<lparr>perplexity_api_key = Some ''key'',
      requests_post =
        (\<lambda>api_key system_prompt prompt w.
           (Inr \<lparr>status_code = 200, response_text = [], message_content = Inr reply\<rparr>,
            w @ [prompt])),
      run_pdflatex =
        (\<lambda>filename_stem tex_content w.
           (Inr (\<lparr>returncode = 0, stderr = [], stdout = []\<rparr>, Some produced), w))\<rparr>\<close>

definition sample_reply :: string where
  \<open>sample_reply =
     documentclass @ ''{article}'' @ begin_document @ ''Tailored'' @ backslash # ''end{document}''\<close>

definition sample_original :: string where
  \<open>sample_original =
     documentclass @ ''{article}'' @ begin_document @ ''Original'' @ backslash # ''end{document}''\<close>

definition sample_state :: \<open>(string list) state\<close> where
  \<open>sample_state =
     \<lparr>current_resume = \<lparr>content = sample_original, filename = ''main.tex'', file_type = ''tex''\<rparr>,
      compiled_folder = Map.empty, rag_file = None, world = []\<rparr>\<close>

definition sample_vars :: loop_vars where
  \<open>sample_vars = \<lparr>tailored_content = sample_reply, adjustment_count = 0, adjustment_type = None\<rparr>\<close>

text \<open>A text block of no height, and one that starts below the usable bottom of its page.\<close>

definition flat_block :: block where
  \<open>flat_block =
     \<lparr>b_x0 = 0, b_y0 = 50, b_x1 = 100, b_y1 = 50, b_text = ''rule'', b_no = 0, b_type = 0\<rparr>\<close>

definition low_block :: block where
  \<open>low_block =
     \<lparr>b_x0 = 0, b_y0 = 120, b_x1 = 100, b_y1 = 130, b_text = ''footer'', b_no = 0, b_type = 0\<rparr>\<close>

text \<open>Replies of the service.\<close>

definition padded_reply :: string where
  \<open>padded_reply = '' '' @ sample_reply @ [newline]\<close>

definition commented_reply :: string where
  \<open>commented_reply =
     documentclass @ ''{article}'' @ begin_document @ ''% '' @ backslash # ''End{Document} of the draft''
       @ [newline] @ ''Tailored'' @ backslash # ''end{document}''\<close>

definition body_reply :: string where
  \<open>body_reply =
     ''Here you go: '' @ begin_document @ ''Tailored'' @ backslash # ''end{document} Good luck!''\<close>

definition fenced_reply :: string where
  \<open>fenced_reply =
     ''Here you go:'' @ [newline] @ ''```latex'' @ [newline] @ begin_document @ ''Tailored''
       @ backslash # ''end{document}'' @ [newline] @ ''```''\<close>

section \<open>Properties of the content extractor\<close>

lemma sublist_transitive: "sublist xs ys \<Longrightarrow> sublist ys zs \<Longrightarrow> sublist xs zs"
proof -
  assume "sublist xs ys" "sublist ys zs"
  then obtain p s p' s' where "ys = p @ xs @ s" "zs = p' @ ys @ s'"
    by (auto simp: sublist_def)
  then have "zs = (p' @ p) @ xs @ (s @ s')" by simp
  then show ?thesis unfolding sublist_def by blast
qed

lemma sublist_strip: "sublist (strip s) s"
proof -
  have "sublist (rev (dropWhile is_space (rev (dropWhile is_space s)))) (dropWhile is_space s)"
    by (simp add: sublist_rev_left)
  then show ?thesis
    unfolding strip_def by (rule sublist_transitive) simp
qed

lemma lazy_group_prefix:
  "match_at (Lazy_group # its) s = Some (g, r) \<Longrightarrow> prefix g s"
proof (induction s arbitrary: g)
  case Nil
  then show ?case by auto
next
  case (Cons c cs)
  show ?case
  proof (cases "match_at its (c # cs)")
    case None
    with Cons.prems obtain g' where "match_at (Lazy_group # its) cs = Some (g', r)" "g = c # g'"
      by auto
    with Cons.IH show ?thesis by simp
  next
    case (Some a)
    with Cons.prems show ?thesis by (auto split: prod.splits)
  qed
qed

lemma match_at_parts:
  "match_at pat s = Some (g, r) \<Longrightarrow> sublist g s \<and> suffix r s"
proof (induction pat s arbitrary: g r rule: match_at.induct)
  case (1 s)
  then show ?case by simp
next
  case (2 l its s)
  then have "ci_prefix l s" and m: "match_at its (drop (length l) s) = Some (g, r)"
    by (auto split: if_splits)
  with 2 have "sublist g (drop (length l) s)" "suffix r (drop (length l) s)" by auto
  then show ?case
    by (meson sublist_drop sublist_transitive suffix_drop suffix_order.trans)
next
  case (3 its)
  then show ?case by simp
next
  case (4 its c cs)
  then show ?case
    by (auto split: if_splits option.splits simp: sublist_Cons_right suffix_Cons)
next
  case (5 its)
  then show ?case by auto
next
  case (6 its c cs)
  have p: "sublist g (c # cs)"
    using lazy_group_prefix [OF "6.prems"] by (rule prefix_imp_sublist)
  show ?case
  proof (cases "match_at its (c # cs)")
    case None
    with 6 obtain g' where g': "match_at (Lazy_group # its) cs = Some (g', r)" "g = c # g'"
      by auto
    with 6 None have "suffix r cs" by auto
    with p show ?thesis by (simp add: suffix_Cons)
  next
    case (Some a)
    with 6 p show ?thesis by (auto split: prod.splits)
  qed
qed

lemma re_search_parts:
  "re_search pat s = Some (g, r) \<Longrightarrow> sublist g s \<and> suffix r s"
proof (induction s)
  case Nil
  then show ?case using match_at_parts [of pat "[]" g r] by simp
next
  case (Cons c cs)
  show ?case
  proof (cases "match_at pat (c # cs)")
    case None
    with Cons show ?thesis by (simp add: sublist_Cons_right suffix_Cons)
  next
    case (Some a)
    with Cons.prems have "match_at pat (c # cs) = Some (g, r)" by simp
    then show ?thesis by (rule match_at_parts)
  qed
qed

lemma strip_fences_cases:
  "strip_fences pats text = text \<or>
   (sublist (strip_fences pats text) text \<and>
    (str_in documentclass (strip_fences pats text) \<or>
     str_in begin_document (strip_fences pats text)))"
proof (induction pats)
  case Nil
  then show ?case by simp
next
  case (Cons pattern pats)
  show ?case
  proof (cases "re_search pattern text")
    case None
    with Cons show ?thesis by simp
  next
    case (Some a)
    obtain g r where a: "a = (g, r)" by (cases a)
    with Some have "sublist g text" using re_search_parts by blast
    then have "sublist (strip g) text"
      using sublist_strip sublist_transitive by blast
    with Cons Some a show ?thesis by (auto simp: Let_def)
  qed
qed

subsection \<open>Failure of the extractor\<close>

text \<open>
  Claim C8. A reply that contains neither \<^verbatim>\<open>\documentclass\<close> nor \<^verbatim>\<open>\begin{document}\<close>
  anywhere (so in no code fence either) makes \<^verbatim>\<open>extract_latex_from_response\<close> raise its
  extraction exception, whatever the original document is.
\<close>

theorem extract_failure:
  assumes "\<not> str_in documentclass reply" and "\<not> str_in begin_document reply"
  shows "extract_latex_from_response reply original_tex = Inl extraction_error"
proof -
  let ?t = "strip reply"
  have t: "\<not> str_in documentclass ?t" "\<not> str_in begin_document ?t"
    using assms sublist_strip sublist_transitive unfolding str_in_def by blast+
  have f: "strip_fences fence_patterns ?t = ?t"
    using strip_fences_cases [of fence_patterns ?t] t sublist_transitive
    unfolding str_in_def by blast
  have tk: "\<not> str_in documentclass (take n ?t)" "\<not> str_in begin_document (take n ?t)" for n
    using t sublist_take sublist_transitive unfolding str_in_def by blast+
  show ?thesis
    unfolding extract_latex_from_response_def Let_def f
    using t tk by (simp split: option.splits prod.splits)
qed

theorem extract_failure_witness:
  "\<not> str_in documentclass ''Sorry, I cannot help. ```plain text```'' \<and>
   \<not> str_in begin_document ''Sorry, I cannot help. ```plain text```'' \<and>
   extract_latex_from_response ''Sorry, I cannot help. ```plain text```''
     (documentclass @ begin_document) = Inl extraction_error"
proof -
  have a: "\<not> str_in documentclass ''Sorry, I cannot help. ```plain text```''"
    by (simp add: str_in_def documentclass_def backslash_def sublist_code)
  have b: "\<not> str_in begin_document ''Sorry, I cannot help. ```plain text```''"
    by (simp add: str_in_def begin_document_def backslash_def sublist_code)
  show ?thesis using a b extract_failure [OF a b] by simp
qed

subsection \<open>Replies that are a document\<close>

lemma ascii_lower_backtick: "ascii_lower c = ascii_lower (CHR 0x60) \<Longrightarrow> c = CHR 0x60"
  by (auto simp: ascii_lower_def split: if_splits)

lemma ci_prefix_backticks:
  "ci_prefix (CHR 0x60 # CHR 0x60 # CHR 0x60 # l) s \<Longrightarrow> prefix ''```'' s"
  by (cases s; cases "tl s"; cases "tl (tl s)") (auto dest: ascii_lower_backtick)

lemma re_search_no_fence:
  assumes "\<not> sublist ''```'' s"
  shows "re_search (Lit (CHR 0x60 # CHR 0x60 # CHR 0x60 # l) # its) s = None"
  using assms
proof (induction s)
  case Nil
  then show ?case by simp
next
  case (Cons c cs)
  then have "\<not> prefix ''```'' (c # cs)" "\<not> sublist ''```'' cs"
    by (auto simp: sublist_Cons_right)
  with Cons.IH ci_prefix_backticks [of l "c # cs"] show ?case by auto
qed

lemma strip_fences_none:
  assumes "\<not> sublist ''```'' s"
  shows "strip_fences fence_patterns s = s"
  using re_search_no_fence [OF assms] by (simp add: fence_patterns_def)

lemma str_find_prefix: "prefix sub s \<Longrightarrow> str_find sub s = Some 0"
  by (cases s) auto

lemma str_find_Some:
  "str_find sub s = Some i \<Longrightarrow> i \<le> length s \<and> prefix sub (drop i s)"
proof (induction s arbitrary: i)
  case Nil
  then show ?case by (auto split: if_splits)
next
  case (Cons c cs)
  then show ?case by (auto split: if_splits)
qed

lemma str_in_find: "str_in sub s \<Longrightarrow> \<exists>i. str_find sub s = Some i"
  unfolding str_in_def
proof (induction s)
  case Nil
  then show ?case by simp
next
  case (Cons c cs)
  then show ?case by (auto simp: sublist_Cons_right)
qed

lemma sublist_dropWhile_keep:
  assumes "sublist m s" and "m \<noteq> []" and "\<not> P (hd m)"
  shows "sublist m (dropWhile P s)"
proof -
  from assms obtain p q where s: "s = p @ m @ q" by (auto simp: sublist_def)
  from assms obtain x m' where m: "m = x # m'" "\<not> P x" by (cases m) auto
  show ?thesis
  proof (cases "\<forall>y\<in>set p. P y")
    case True
    then have "dropWhile P s = m @ q" using s m by (simp add: dropWhile_append2)
    then show ?thesis by simp
  next
    case False
    then obtain y where "y \<in> set p" "\<not> P y" by blast
    then have "dropWhile P s = dropWhile P p @ m @ q" using s by (simp add: dropWhile_append1)
    then show ?thesis by simp
  qed
qed

lemma sublist_strip_keep:
  assumes "sublist m s" and "m \<noteq> []" and "\<not> is_space (hd m)" and "\<not> is_space (last m)"
  shows "sublist m (strip s)"
proof -
  have "sublist m (dropWhile is_space s)"
    using assms by (intro sublist_dropWhile_keep)
  then have "sublist (rev m) (rev (dropWhile is_space s))" by simp
  moreover have "rev m \<noteq> []" "\<not> is_space (hd (rev m))"
    using assms by (simp_all add: hd_rev)
  ultimately have "sublist (rev m) (dropWhile is_space (rev (dropWhile is_space s)))"
    by (intro sublist_dropWhile_keep)
  then show ?thesis by (simp add: strip_def sublist_rev_right)
qed

lemma begin_document_strip: "str_in begin_document s \<Longrightarrow> str_in begin_document (strip s)"
  unfolding str_in_def
  by (rule sublist_strip_keep) (simp_all add: begin_document_def backslash_def is_space_def)

text \<open>
  Claim C6, as stated, fails. A reply that is a document between surrounding white space
  comes back without that white space, and a document whose text has an earlier
  \<^verbatim>\<open>\End{Document}\<close> in a comment is cut there, although both begin with
  \<^verbatim>\<open>\documentclass\<close> once trimmed, have no code fence and end with \<^verbatim>\<open>\end{document}\<close>.
\<close>

theorem round_trip_counterexample:
  "prefix documentclass (strip padded_reply) \<and> \<not> str_in ''```'' padded_reply \<and>
   suffix (backslash # ''end{document}'') (strip padded_reply) \<and>
   extract_latex_from_response padded_reply sample_original = Inr sample_reply \<and>
   sample_reply \<noteq> padded_reply \<and>
   prefix documentclass (strip commented_reply) \<and> \<not> str_in ''```'' commented_reply \<and>
   suffix (backslash # ''end{document}'') (strip commented_reply) \<and>
   strip commented_reply = commented_reply \<and>
   extract_latex_from_response commented_reply sample_original =
     Inr (documentclass @ ''{article}'' @ begin_document @ ''% '' @ backslash # ''End{Document}'') \<and>
   documentclass @ ''{article}'' @ begin_document @ ''% '' @ backslash # ''End{Document}''
     \<noteq> commented_reply"
  by code_simp

text \<open>
  Claim C6, amended. If the reply, once trimmed of surrounding white space, begins with
  \<^verbatim>\<open>\documentclass\<close>, if it has no code fence, and if the first occurrence of
  \<^verbatim>\<open>\end{document}\<close> in the trimmed reply, in any letter case, is at its very end, then
  the extractor returns the trimmed reply, whatever the original document is.
\<close>

theorem extract_round_trip:
  assumes "prefix documentclass (strip reply)"
      and "\<not> str_in ''```'' reply"
      and "re_search end_doc_pattern (strip reply) = Some (g, [])"
  shows "extract_latex_from_response reply original_tex = Inr (strip reply)"
proof -
  let ?t = "strip reply"
  have "\<not> sublist ''```'' ?t"
    using assms(2) sublist_strip sublist_transitive unfolding str_in_def by blast
  then have f: "strip_fences fence_patterns ?t = ?t" by (rule strip_fences_none)
  have d: "str_in documentclass ?t" using assms(1) by (simp add: str_in_def)
  have s: "str_find documentclass ?t = Some 0" using assms(1) by (rule str_find_prefix)
  show ?thesis
    unfolding extract_latex_from_response_def Let_def f
    using d s assms(3) by simp
qed

theorem extract_round_trip_witness:
  "prefix documentclass (strip padded_reply) \<and> \<not> str_in ''```'' padded_reply \<and>
   re_search end_doc_pattern (strip padded_reply) = Some ([], []) \<and>
   strip padded_reply = sample_reply \<and>
   extract_latex_from_response padded_reply sample_original = Inr sample_reply"
proof -
  have a: "prefix documentclass (strip padded_reply)" by code_simp
  have b: "\<not> str_in ''```'' padded_reply" by code_simp
  have c: "re_search end_doc_pattern (strip padded_reply) = Some ([], [])" by code_simp
  have d: "strip padded_reply = sample_reply" by code_simp
  show ?thesis
    using a b c d extract_round_trip [OF a b c, of sample_original] by simp
qed

subsection \<open>Replies without a preamble\<close>

lemma fallback_text:
  assumes "str_in begin_document reply" and "\<not> str_in documentclass reply"
  shows "str_in begin_document (strip_fences fence_patterns (strip reply)) \<and>
         \<not> str_in documentclass (strip_fences fence_patterns (strip reply))"
proof -
  let ?t = "strip reply" and ?u = "strip_fences fence_patterns (strip reply)"
  have t: "str_in begin_document ?t" "\<not> str_in documentclass ?t"
    using assms begin_document_strip sublist_strip sublist_transitive
    unfolding str_in_def by blast+
  have u: "?u = ?t \<or> (sublist ?u ?t \<and> (str_in documentclass ?u \<or> str_in begin_document ?u))"
    by (rule strip_fences_cases)
  have "\<not> str_in documentclass ?u"
    using u t sublist_transitive unfolding str_in_def by metis
  moreover have "str_in begin_document ?u"
    using u t calculation by auto
  ultimately show ?thesis by simp
qed

text \<open>
  Claim C7, as stated, fails: the text that follows \<^verbatim>\<open>\end{document}\<close> in the reply is
  not part of the result.
\<close>

theorem preamble_fallback_counterexample:
  "str_in begin_document body_reply \<and> \<not> str_in documentclass body_reply \<and>
   extract_preamble_from_original sample_original = documentclass @ ''{article}'' \<and>
   str_find begin_document body_reply = Some 13 \<and>
   extract_latex_from_response body_reply sample_original =
     Inr (documentclass @ ''{article}'' @ begin_document @ ''Tailored'' @ backslash # ''end{document}'') \<and>
   documentclass @ ''{article}'' @ begin_document @ ''Tailored'' @ backslash # ''end{document}''
     \<noteq> extract_preamble_from_original sample_original @ drop 13 body_reply"
  by code_simp

text \<open>
  Claim C7, amended. Let the reply contain \<^verbatim>\<open>\begin{document}\<close> and no
  \<^verbatim>\<open>\documentclass\<close>, and let the original document have a non-empty preamble. The text
  left by the fence patterns (the trimmed reply itself when the reply has no code fence)
  contains \<^verbatim>\<open>\begin{document}\<close>; the body is this text from its first
  \<^verbatim>\<open>\begin{document}\<close> on. The preamble joined with the body contains
  \<^verbatim>\<open>\begin{document}\<close>, and \<^verbatim>\<open>\documentclass\<close> if the preamble does. The extractor
  returns the joined text when it has no \<^verbatim>\<open>\end{document}\<close> (in any letter case) or
  ends with its first one; otherwise it returns the joined text cut after its first
  \<^verbatim>\<open>\end{document}\<close>, or raises if no marker is left before the cut.
\<close>

theorem extract_preamble_fallback:
  assumes "str_in begin_document reply" and "\<not> str_in documentclass reply"
      and "extract_preamble_from_original original_tex \<noteq> []"
  shows "\<exists>start. str_find begin_document (strip_fences fence_patterns (strip reply)) = Some start \<and>
           (let body = drop start (strip_fences fence_patterns (strip reply));
                joined = extract_preamble_from_original original_tex @ body
            in prefix begin_document body \<and> str_in begin_document joined \<and>
               (str_in documentclass (extract_preamble_from_original original_tex) \<longrightarrow>
                  str_in documentclass joined) \<and>
               (case re_search end_doc_pattern joined of
                  None \<Rightarrow> extract_latex_from_response reply original_tex = Inr joined
                | Some (g, rest) \<Rightarrow>
                    (rest = [] \<longrightarrow> extract_latex_from_response reply original_tex = Inr joined) \<and>
                    (let cut = take (length joined - length rest) joined
                     in extract_latex_from_response reply original_tex =
                          (if \<not> str_in documentclass cut \<and> \<not> str_in begin_document cut
                           then Inl extraction_error else Inr cut)))) \<and>
         (\<not> str_in ''```'' reply \<longrightarrow> strip_fences fence_patterns (strip reply) = strip reply)"
proof -
  let ?u = "strip_fences fence_patterns (strip reply)"
  let ?p = "extract_preamble_from_original original_tex"
  have u: "str_in begin_document ?u" "\<not> str_in documentclass ?u"
    using fallback_text [OF assms(1,2)] by simp_all
  from str_in_find [OF u(1)] obtain start where start: "str_find begin_document ?u = Some start"
    by blast
  let ?body = "drop start ?u"
  let ?j = "?p @ ?body"
  have pb: "prefix begin_document ?body"
    using str_find_Some [OF start] by simp
  then have bj: "str_in begin_document ?j"
    unfolding str_in_def
    by (meson prefix_imp_sublist sublist_append_leftI sublist_transitive)
  have dj: "str_in documentclass ?p \<longrightarrow> str_in documentclass ?j"
    unfolding str_in_def
    by (meson sublist_append_rightI sublist_transitive)
  have e: "extract_latex_from_response reply original_tex =
             (let text = (case re_search end_doc_pattern ?j of
                            Some (group1, rest) \<Rightarrow> take (length ?j - length rest) ?j
                          | None \<Rightarrow> ?j)
              in if \<not> str_in documentclass text \<and> \<not> str_in begin_document text
                 then Inl extraction_error else Inr text)"
    unfolding extract_latex_from_response_def Let_def
    using u start assms(3) by (simp cong: option.case_cong prod.case_cong if_cong)
  have c: "case re_search end_doc_pattern ?j of
             None \<Rightarrow> extract_latex_from_response reply original_tex = Inr ?j
           | Some (g, rest) \<Rightarrow>
               (rest = [] \<longrightarrow> extract_latex_from_response reply original_tex = Inr ?j) \<and>
               (let cut = take (length ?j - length rest) ?j
                in extract_latex_from_response reply original_tex =
                     (if \<not> str_in documentclass cut \<and> \<not> str_in begin_document cut
                      then Inl extraction_error else Inr cut))"
  proof (cases "re_search end_doc_pattern ?j")
    case None
    with e bj show ?thesis by simp
  next
    case (Some a)
    obtain g rest where a: "a = (g, rest)" by (cases a)
    with Some e bj show ?thesis by (simp add: Let_def)
  qed
  have f: "\<not> str_in ''```'' reply \<longrightarrow> ?u = strip reply"
  proof
    assume "\<not> str_in ''```'' reply"
    then have "\<not> sublist ''```'' (strip reply)"
      using sublist_strip sublist_transitive unfolding str_in_def by blast
    then show "?u = strip reply" by (rule strip_fences_none)
  qed
  show ?thesis
    using start pb bj dj c f by (simp add: Let_def)
qed

theorem extract_preamble_fallback_witness:
  "str_in begin_document fenced_reply \<and> \<not> str_in documentclass fenced_reply \<and>
   extract_preamble_from_original sample_original \<noteq> [] \<and>
   str_in documentclass (extract_preamble_from_original sample_original) \<and>
   \<not> str_in ''```'' body_reply \<and>
   strip_fences fence_patterns (strip body_reply) = strip body_reply \<and>
   extract_latex_from_response fenced_reply sample_original = Inr sample_reply \<and>
   str_in documentclass sample_reply \<and> str_in begin_document sample_reply"
proof -
  have a: "str_in begin_document fenced_reply" by code_simp
  have b: "\<not> str_in documentclass fenced_reply" by code_simp
  have c: "extract_preamble_from_original sample_original \<noteq> []" by code_simp
  have a': "str_in begin_document body_reply" by code_simp
  have b': "\<not> str_in documentclass body_reply" by code_simp
  have d: "str_in documentclass (extract_preamble_from_original sample_original)" by code_simp
  have e: "\<not> str_in ''```'' body_reply" by code_simp
  have s: "str_find begin_document (strip_fences fence_patterns (strip fenced_reply)) = Some 0"
    by code_simp
  have j: "extract_preamble_from_original sample_original
             @ drop 0 (strip_fences fence_patterns (strip fenced_reply)) = sample_reply"
    by code_simp
  have r: "re_search end_doc_pattern sample_reply = Some ([], [])" by code_simp
  have m: "str_in documentclass sample_reply" "str_in begin_document sample_reply"
    by code_simp+
  show ?thesis
    using a b c d e s j r m
      extract_preamble_fallback [OF a b c]
      extract_preamble_fallback [OF a' b' c]
    by (auto simp: Let_def)
qed

section \<open>Properties of the layout analyzer\<close>

lemma measure_range: "measure_fill_ratio fitz_open pdf_path = Inr r \<Longrightarrow> 0 \<le> r \<and> r \<le> 1"
  by (auto simp: measure_fill_ratio_def Let_def split: sum.splits list.splits if_splits prod.splits)

text \<open>
  Claim C9. For every path and every behaviour of the PDF library, \<^verbatim>\<open>calculate_fill_ratio\<close>
  returns a number between 0 and 1: it is 0.9 when opening the file, taking its first page
  or reading the blocks raises, 0.5 when the page has no block, and otherwise the quotient of
  the used by the usable height (0.9 when no height is usable), clamped to the interval.
\<close>

theorem fill_ratio_total:
  "0 \<le> calculate_fill_ratio fitz_open pdf_path \<and>
   calculate_fill_ratio fitz_open pdf_path \<le> 1 \<and>
   (fitz_open pdf_path = Inl e \<or> fitz_open pdf_path = Inr [] \<or>
    (fitz_open pdf_path = Inr (page # pages) \<and> text_blocks page = Inl e) \<longrightarrow>
      calculate_fill_ratio fitz_open pdf_path = 0.9) \<and>
   (fitz_open pdf_path = Inr (page # pages) \<and> text_blocks page = Inr [] \<longrightarrow>
      calculate_fill_ratio fitz_open pdf_path = 0.5) \<and>
   (fitz_open pdf_path = Inr (page # pages) \<and> text_blocks page = Inr blocks \<and> blocks \<noteq> [] \<longrightarrow>
      (let (content_top, content_bottom) = content_bounds (rect_height page) blocks;
           usable_height = rect_height page - 36 - content_top
       in calculate_fill_ratio fitz_open pdf_path =
            min (max (if usable_height > 0 then (content_bottom - content_top) / usable_height
                      else 0.9) 0) 1))"
proof -
  have "0 \<le> calculate_fill_ratio fitz_open pdf_path \<and> calculate_fill_ratio fitz_open pdf_path \<le> 1"
    using measure_range [of fitz_open pdf_path]
    by (cases "measure_fill_ratio fitz_open pdf_path") (auto simp: calculate_fill_ratio_def)
  moreover have "fitz_open pdf_path = Inl e \<or> fitz_open pdf_path = Inr [] \<or>
    (fitz_open pdf_path = Inr (page # pages) \<and> text_blocks page = Inl e) \<longrightarrow>
      calculate_fill_ratio fitz_open pdf_path = 0.9"
    by (auto simp: calculate_fill_ratio_def measure_fill_ratio_def)
  moreover have "fitz_open pdf_path = Inr (page # pages) \<and> text_blocks page = Inr [] \<longrightarrow>
      calculate_fill_ratio fitz_open pdf_path = 0.5"
    by (simp add: calculate_fill_ratio_def measure_fill_ratio_def)
  moreover have "fitz_open pdf_path = Inr (page # pages) \<and> text_blocks page = Inr blocks \<and>
      blocks \<noteq> [] \<longrightarrow>
      (let (content_top, content_bottom) = content_bounds (rect_height page) blocks;
           usable_height = rect_height page - 36 - content_top
       in calculate_fill_ratio fitz_open pdf_path =
            min (max (if usable_height > 0 then (content_bottom - content_top) / usable_height
                      else 0.9) 0) 1)"
    by (auto simp: calculate_fill_ratio_def measure_fill_ratio_def Let_def split: prod.splits)
  ultimately show ?thesis by blast
qed

theorem fill_ratio_total_witness:
  "calculate_fill_ratio (\<lambda>path. Inl (Other_exception ''FileDataError'')) ''main.pdf'' = 0.9 \<and>
   calculate_fill_ratio (\<lambda>path. Inr []) ''main.pdf'' = 0.9 \<and>
   calculate_fill_ratio
     (\<lambda>path. Inr [\<lparr>rect_height = 136, text_blocks = Inl (Other_exception ''RuntimeError'')\<rparr>])
     ''main.pdf'' = 0.9 \<and>
   calculate_fill_ratio (\<lambda>path. Inr [\<lparr>rect_height = 136, text_blocks = Inr []\<rparr>]) ''main.pdf'' = 0.5 \<and>
   [flat_block] \<noteq> [] \<and>
   calculate_fill_ratio (\<lambda>path. Inr [\<lparr>rect_height = 136, text_blocks = Inr [flat_block]\<rparr>])
     ''main.pdf'' = 0"
  using
    fill_ratio_total [where fitz_open = "\<lambda>path. Inl (Other_exception ''FileDataError'')"
      and pdf_path = "''main.pdf''" and e = "Other_exception ''FileDataError''"]
    fill_ratio_total [where fitz_open = "\<lambda>path. Inr []" and pdf_path = "''main.pdf''"]
    fill_ratio_total [where fitz_open =
        "\<lambda>path. Inr [\<lparr>rect_height = 136, text_blocks = Inl (Other_exception ''RuntimeError'')\<rparr>]"
      and pdf_path = "''main.pdf''" and e = "Other_exception ''RuntimeError''"
      and page = "\<lparr>rect_height = 136, text_blocks = Inl (Other_exception ''RuntimeError'')\<rparr>"
      and pages = "[]"]
    fill_ratio_total [where fitz_open = "\<lambda>path. Inr [\<lparr>rect_height = 136, text_blocks = Inr []\<rparr>]"
      and pdf_path = "''main.pdf''"
      and page = "\<lparr>rect_height = 136, text_blocks = Inr []\<rparr>" and pages = "[]"]
    fill_ratio_total [where fitz_open =
        "\<lambda>path. Inr [\<lparr>rect_height = 136, text_blocks = Inr [flat_block]\<rparr>]"
      and pdf_path = "''main.pdf''"
      and page = "\<lparr>rect_height = 136, text_blocks = Inr [flat_block]\<rparr>" and pages = "[]"
      and blocks = "[flat_block]"]
  by (simp add: content_bounds_def flat_block_def)

text \<open>
  Claim C10. When the content starts at or below the usable bottom of the page, so that the
  usable height is zero or negative, no division takes place and the result is exactly 0.9.
\<close>

theorem no_usable_height:
  assumes "fitz_open pdf_path = Inr (page # pages)"
      and "text_blocks page = Inr blocks" and "blocks \<noteq> []"
      and "rect_height page - 36 - fst (content_bounds (rect_height page) blocks) \<le> 0"
  shows "calculate_fill_ratio fitz_open pdf_path = 0.9"
  using assms
  by (auto simp: calculate_fill_ratio_def measure_fill_ratio_def Let_def split: prod.splits)

theorem no_usable_height_witness:
  "[low_block] \<noteq> [] \<and>
   rect_height \<lparr>rect_height = 136, text_blocks = Inr [low_block]\<rparr> - 36
     - fst (content_bounds (rect_height \<lparr>rect_height = 136, text_blocks = Inr [low_block]\<rparr>) [low_block]) \<le> 0 \<and>
   calculate_fill_ratio (\<lambda>path. Inr [\<lparr>rect_height = 136, text_blocks = Inr [low_block]\<rparr>])
     ''main.pdf'' = 0.9"
proof -
  have h: "rect_height \<lparr>rect_height = 136, text_blocks = Inr [low_block]\<rparr> - 36
     - fst (content_bounds (rect_height \<lparr>rect_height = 136, text_blocks = Inr [low_block]\<rparr>) [low_block]) \<le> 0"
    by (simp add: content_bounds_def low_block_def)
  show ?thesis
    using h no_usable_height [where fitz_open =
        "\<lambda>path. Inr [\<lparr>rect_height = 136, text_blocks = Inr [low_block]\<rparr>]"
      and pdf_path = "''main.pdf''"
      and page = "\<lparr>rect_height = 136, text_blocks = Inr [low_block]\<rparr>" and pages = "[]"
      and blocks = "[low_block]", OF _ _ _ h]
    by simp
qed

section \<open>Properties of the renderer\<close>

lemma compile_success:
  assumes "compile_latex_to_pdf env tex_content filename_stem save_final st =
             (Inr (page_count, fill_ratio, final_path), st1)"
  shows "\<exists>result produced w.
           run_pdflatex env filename_stem tex_content (world st) = (Inr (result, Some produced), w) \<and>
           returncode result = 0 \<and> reader_pages produced = Inr page_count \<and>
           fill_ratio = calculate_fill_ratio (\<lambda>path. fitz_view produced) (filename_stem @ ''.pdf'') \<and>
           (if save_final
            then final_path = Some (filename_stem @ ''.pdf'') \<and>
                 st1 = st\<lparr>world := w,
                          compiled_folder := (compiled_folder st)(filename_stem @ ''.pdf'' \<mapsto> produced)\<rparr>
            else final_path = None \<and> st1 = st\<lparr>world := w\<rparr>)"
proof (cases "run_pdflatex env filename_stem tex_content (world st)")
  case (Pair outcome w)
  show ?thesis
  proof (cases outcome)
    case (Inl e)
    with Pair assms show ?thesis by (simp add: compile_latex_to_pdf_def)
  next
    case (Inr rp)
    obtain result pdf_file where rp: "rp = (result, pdf_file)" by (cases rp)
    from assms Pair Inr rp have rc: "returncode result = 0"
      by (auto simp: compile_latex_to_pdf_def Let_def split: if_splits)
    with assms Pair Inr rp obtain produced where pr: "pdf_file = Some produced"
      by (cases pdf_file) (auto simp: compile_latex_to_pdf_def Let_def)
    with assms Pair Inr rp rc have pg: "reader_pages produced = Inr page_count"
      by (cases "reader_pages produced") (auto simp: compile_latex_to_pdf_def Let_def split: if_splits)
    from assms Pair Inr rp rc pr pg show ?thesis
      by (auto simp: compile_latex_to_pdf_def Let_def split: if_splits)
  qed
qed

lemma compile_frame:
  "compile_latex_to_pdf env tex stem save st = (r, st') \<Longrightarrow>
   current_resume st' = current_resume st \<and> rag_file st' = rag_file st \<and>
   (\<not> save \<longrightarrow> compiled_folder st' = compiled_folder st)"
  by (auto simp: compile_latex_to_pdf_def Let_def
      split: option.splits if_splits prod.splits sum.splits)

section \<open>Facts about the sample collaborators\<close>

lemma sample_pages: "reader_pages (sample_pdf n y) = Inr n"
  by (simp add: sample_pdf_def)

lemma sample_fill:
  "0 \<le> y \<Longrightarrow> y \<le> 100 \<Longrightarrow>
   calculate_fill_ratio (\<lambda>path. fitz_view (sample_pdf n y)) p = y / 100"
  by (simp add: calculate_fill_ratio_def measure_fill_ratio_def sample_pdf_def
      content_bounds_def Let_def)

lemma sample_compile:
  "0 \<le> y \<Longrightarrow> y \<le> 100 \<Longrightarrow>
   compile_latex_to_pdf (sample_env (sample_pdf n y) reply) tex stem False st =
     (Inr (n, y / 100, None), st)"
  by (simp add: compile_latex_to_pdf_def sample_env_def sample_fill sample_pages Let_def)

lemma sample_query:
  "query_perplexity (sample_env produced reply) prompt sys st =
     (Inr reply, st\<lparr>world := world st @ [prompt]\<rparr>)"
  by (simp add: query_perplexity_def sample_env_def)

lemma sample_extract: "extract_latex_from_response sample_reply orig = Inr sample_reply"
  by code_simp

lemma sample_shorten:
  "shorten_resume (sample_env produced sample_reply) c orig jd f st =
     (Inr sample_reply, st\<lparr>world := world st @ [shorten_prompt c jd f]\<rparr>)"
  by (simp add: shorten_resume_def sample_query sample_extract)

lemma sample_expand:
  "expand_resume (sample_env produced sample_reply) c orig jd f st =
     (Inr sample_reply, st\<lparr>world := world st @ [expand_prompt c jd f]\<rparr>)"
  by (simp add: expand_resume_def sample_query sample_extract)

lemma sample_compile_final:
  "0 \<le> y \<Longrightarrow> y \<le> 100 \<Longrightarrow>
   compile_latex_to_pdf (sample_env (sample_pdf n y) reply) tex stem True st =
     (Inr (n, y / 100, Some (stem @ ''.pdf'')),
      st\<lparr>compiled_folder := (compiled_folder st)(stem @ ''.pdf'' \<mapsto> sample_pdf n y)\<rparr>)"
  by (simp add: compile_latex_to_pdf_def sample_env_def sample_fill sample_pages Let_def)

lemma sample_stem: "document_stem (current_resume sample_state) = ''main''"
  unfolding sample_state_def by code_simp

lemma sample_fields:
  "content (current_resume sample_state) = sample_original"
  "filename (current_resume sample_state) = ''main.tex''"
  "file_type (current_resume sample_state) = ''tex''"
  "load_rag_context sample_state = []"
  "world sample_state = []"
  "compiled_folder sample_state = Map.empty"
  by (simp_all add: sample_state_def load_rag_context_def)

lemma sample_service:
  "requests_post (sample_env produced reply) = requests_post (sample_env produced' reply)"
  "perplexity_api_key (sample_env produced reply) = Some ''key''"
  by (simp_all add: sample_env_def)

lemma round_92: "round_2 (23 / 25) = 23 / 25"
  by (simp add: round_2_def round_half_even_def)

lemma round_99: "round_2 (99 / 100) = 99 / 100"
  by (simp add: round_2_def round_half_even_def)

lemma replicate_5: "replicate 5 x = [x, x, x, x, x]"
  by (simp add: numeral_eq_Suc)

section \<open>Properties of the optimization loop\<close>

lemmas loop_defs =
  evaluate_def loop_decision_def MIN_FILL_RATIO_def MAX_FILL_RATIO_def
  max_optimization_attempts_def

subsection \<open>Page count before fill ratio\<close>

text \<open>
  Claim C1. Whenever the render reports more than one page, the iteration takes the branch
  of the page count, whatever the fill ratio is: never the branch of success, never an
  expansion. While attempts are left the iteration asks \<^verbatim>\<open>shorten_resume\<close> for a correction
  and continues with its answer; at the last attempt it stops with the warning. A render of
  two pages with fill ratio 0.99 is shortened.
\<close>

theorem too_long_means_shorten:
  assumes "page_count > 1"
  shows "evaluate page_count fill_ratio = Too_long \<and>
         loop_decision attempt page_count fill_ratio \<noteq> Stop_optimized \<and>
         loop_decision attempt page_count fill_ratio \<noteq> Adjust Expanded \<and>
         (attempt < max_optimization_attempts \<longrightarrow>
            loop_decision attempt page_count fill_ratio = Adjust Shortened) \<and>
         (\<not> attempt < max_optimization_attempts \<longrightarrow>
            loop_decision attempt page_count fill_ratio = Stop_could_not_fit) \<and>
         (attempt < max_optimization_attempts \<and>
          compile_latex_to_pdf env (tailored_content vars) filename_stem False st =
            (Inr (page_count, fill_ratio, final_path), st1) \<longrightarrow>
          loop_iteration env job_description filename_stem attempt vars st =
            (case shorten_resume env (tailored_content vars) (content (current_resume st1))
                    job_description fill_ratio st1 of
               (Inl e, st2) \<Rightarrow> (Inl e, st2)
             | (Inr new_content, st2) \<Rightarrow>
                 (Inr (Continue
                    (vars\<lparr>adjustment_count := adjustment_count vars + 1,
                          adjustment_type := Some Shortened,
                          tailored_content := new_content\<rparr>)), st2)))"
  using assms by (simp add: evaluate_def loop_decision_def loop_iteration_def)

theorem too_long_means_shorten_witness:
  "(2::nat) > 1 \<and> 0 < max_optimization_attempts \<and> \<not> 5 < max_optimization_attempts \<and>
   compile_latex_to_pdf (sample_env (sample_pdf 2 99) sample_reply) (tailored_content sample_vars)
     ''main'' False sample_state = (Inr (2, 0.99, None), sample_state) \<and>
   evaluate 2 0.99 = Too_long \<and>
   loop_decision 0 2 0.99 = Adjust Shortened \<and>
   loop_decision 5 2 0.99 = Stop_could_not_fit \<and>
   loop_iteration (sample_env (sample_pdf 2 99) sample_reply) ''jd'' ''main'' 0 sample_vars
     sample_state =
     (Inr (Continue \<lparr>tailored_content = sample_reply, adjustment_count = 1,
                     adjustment_type = Some Shortened\<rparr>),
      sample_state\<lparr>world := [shorten_prompt sample_reply ''jd'' 0.99]\<rparr>)"
proof -
  have c: "compile_latex_to_pdf (sample_env (sample_pdf 2 99) sample_reply)
             (tailored_content sample_vars) ''main'' False sample_state =
           (Inr (2, 0.99, None), sample_state)"
    using sample_compile [of 99 2 sample_reply "tailored_content sample_vars" "''main''"
        sample_state]
    by simp
  have m: "0 < max_optimization_attempts" "\<not> 5 < max_optimization_attempts"
    by (simp_all add: max_optimization_attempts_def)
  show ?thesis
    using c m
      too_long_means_shorten [where page_count = 2 and attempt = 0 and fill_ratio = "0.99"
        and env = "sample_env (sample_pdf 2 99) sample_reply" and vars = sample_vars
        and filename_stem = "''main''" and st = sample_state and final_path = None
        and ?st1.0 = sample_state and job_description = "''jd''"]
      too_long_means_shorten [where page_count = 2 and attempt = 5 and fill_ratio = "0.99"]
    by (simp add: sample_shorten sample_vars_def sample_state_def)
qed

subsection \<open>The fill ratio of a document that is too long\<close>

lemma format_99: "format_2f (99 / 100) = ''0.99''"
  by (simp add: format_2f_def round_half_even_def Let_def str_nat.simps digit_char_def)

lemma format_50: "format_2f (1 / 2) = ''0.50''"
  by (simp add: format_2f_def round_half_even_def Let_def str_nat.simps digit_char_def)

lemma format_991: "format_2f (991 / 1000) = ''0.99''"
  by (simp add: format_2f_def round_half_even_def Let_def str_nat.simps digit_char_def)

text \<open>
  Claim C3, as stated, fails: two renders of two pages that differ in their fill ratio only
  (0.99 and 0.50) make the iteration send different correction requests to the service.
\<close>

theorem request_depends_on_fill_ratio:
  "fst (compile_latex_to_pdf (sample_env (sample_pdf 2 99) sample_reply)
          (tailored_content sample_vars) ''main'' False sample_state) = Inr (2, 0.99, None) \<and>
   fst (compile_latex_to_pdf (sample_env (sample_pdf 2 50) sample_reply)
          (tailored_content sample_vars) ''main'' False sample_state) = Inr (2, 0.5, None) \<and>
   world (snd (loop_iteration (sample_env (sample_pdf 2 99) sample_reply) ''jd'' ''main'' 0
                 sample_vars sample_state)) \<noteq>
   world (snd (loop_iteration (sample_env (sample_pdf 2 50) sample_reply) ''jd'' ''main'' 0
                 sample_vars sample_state))"
proof -
  have a: "compile_latex_to_pdf (sample_env (sample_pdf 2 99) sample_reply)
             (tailored_content sample_vars) ''main'' False sample_state =
           (Inr (2, 0.99, None), sample_state)"
    using sample_compile [of 99 2 sample_reply "tailored_content sample_vars" "''main''"
        sample_state] by simp
  have b: "compile_latex_to_pdf (sample_env (sample_pdf 2 50) sample_reply)
             (tailored_content sample_vars) ''main'' False sample_state =
           (Inr (2, 0.5, None), sample_state)"
    using sample_compile [of 50 2 sample_reply "tailored_content sample_vars" "''main''"
        sample_state] by simp
  have p: "shorten_prompt c jd 0.99 \<noteq> shorten_prompt c jd 0.5" for c jd
    by (simp add: shorten_prompt_def format_99 format_50)
  show ?thesis
    using p by (simp add: a b loop_iteration_def loop_defs sample_shorten)
qed

lemma shorten_prompt_text:
  "shorten_prompt c jd f = shorten_prompt c jd f' \<longleftrightarrow> format_2f f = format_2f f'"
  by (simp add: shorten_prompt_def)

lemma too_long_request:
  assumes "page_count > 1" and "attempt < max_optimization_attempts"
      and "compile_latex_to_pdf env (tailored_content vars) filename_stem False st =
             (Inr (page_count, fill_ratio, final_path), st1)"
      and "perplexity_api_key env = Some api_key" and "api_key \<noteq> []"
  shows "loop_iteration env job_description filename_stem attempt vars st =
           (case requests_post env api_key shorten_system_prompt
                   (shorten_prompt (tailored_content vars) job_description fill_ratio)
                   (world st1) of
              (Inl e, w) \<Rightarrow> (Inl e, st1\<lparr>world := w\<rparr>)
            | (Inr response, w) \<Rightarrow>
                if status_code response \<noteq> 200
                then (Inl (Exception (''Perplexity API error: '' @ response_text response)),
                      st1\<lparr>world := w\<rparr>)
                else
                  (case message_content response of
                     Inl e \<Rightarrow> (Inl e, st1\<lparr>world := w\<rparr>)
                   | Inr raw \<Rightarrow>
                       (case extract_latex_from_response raw (content (current_resume st1)) of
                          Inl e \<Rightarrow> (Inl e, st1\<lparr>world := w\<rparr>)
                        | Inr new_content \<Rightarrow>
                            (Inr (Continue
                               (vars\<lparr>adjustment_count := adjustment_count vars + 1,
                                     adjustment_type := Some Shortened,
                                     tailored_content := new_content\<rparr>)),
                             st1\<lparr>world := w\<rparr>))))"
  using assms
  by (simp add: loop_iteration_def loop_defs shorten_resume_def query_perplexity_def
      split: prod.splits sum.splits)

lemma same_text_same_iteration:
  assumes "page_count > 1" and "page_count' > 1" and "attempt < max_optimization_attempts"
      and "compile_latex_to_pdf env (tailored_content vars) filename_stem False st =
             (Inr (page_count, fill_ratio, final_path), st1)"
      and "compile_latex_to_pdf env' (tailored_content vars) filename_stem False st =
             (Inr (page_count', fill_ratio', final_path'), st1)"
      and "requests_post env' = requests_post env"
      and "perplexity_api_key env' = perplexity_api_key env"
      and "format_2f fill_ratio = format_2f fill_ratio'"
  shows "loop_iteration env job_description filename_stem attempt vars st =
         loop_iteration env' job_description filename_stem attempt vars st"
proof -
  from assms(8) have p: "shorten_prompt (tailored_content vars) job_description fill_ratio =
      shorten_prompt (tailored_content vars) job_description fill_ratio'"
    by (simp only: shorten_prompt_text)
  have "shorten_resume env' (tailored_content vars) (content (current_resume st1))
               job_description fill_ratio' st1 =
             shorten_resume env (tailored_content vars) (content (current_resume st1))
               job_description fill_ratio st1"
    unfolding shorten_resume_def query_perplexity_def assms(6) assms(7) p by (rule refl)
  with assms(1-5) show ?thesis
    by (simp add: loop_iteration_def loop_defs)
qed

text \<open>
  Claim C3, amended. When the render reports more than one page, the verdict and the decision
  of the iteration are the same for every fill ratio. The fill ratio is nevertheless computed
  by every successful render, whatever the page count: it is the value of
  \<^verbatim>\<open>calculate_fill_ratio\<close> on the PDF that this run of \<^verbatim>\<open>pdflatex\<close> produced. And the
  request that a too long iteration issues carries it: with an API key set, the iteration
  posts the shorten prompt built from the current source, the job description and that fill
  ratio, and continues or fails with the answer; two such prompts are equal exactly when the
  two fill ratios have the same two-decimal text; and two renders of more than one page whose
  fill ratios have the same two-decimal text, against the same service, give the same
  iteration.
\<close>

theorem decision_ignores_fill_ratio:
  "(page_count > 1 \<longrightarrow>
      evaluate page_count fill_ratio = evaluate page_count fill_ratio' \<and>
      loop_decision attempt page_count fill_ratio =
        loop_decision attempt page_count fill_ratio') \<and>
   (compile_latex_to_pdf env tex_content filename_stem save_final st0 =
      (Inr (pages, ratio, saved_path), st2) \<longrightarrow>
      (\<exists>(outcome::completed_process) (produced::pdf) w.
         run_pdflatex env filename_stem tex_content (world st0) =
           (Inr (outcome, Some produced), w) \<and>
         reader_pages produced = Inr pages \<and>
         ratio = calculate_fill_ratio (\<lambda>path. fitz_view produced) (filename_stem @ ''.pdf''))) \<and>
   (page_count > 1 \<and> attempt < max_optimization_attempts \<and>
    compile_latex_to_pdf env (tailored_content vars) filename_stem False st =
      (Inr (page_count, fill_ratio, final_path), st1) \<and>
    perplexity_api_key env = Some api_key \<and> api_key \<noteq> [] \<longrightarrow>
      loop_iteration env job_description filename_stem attempt vars st =
        (case requests_post env api_key shorten_system_prompt
                (shorten_prompt (tailored_content vars) job_description fill_ratio)
                (world st1) of
           (Inl e, w) \<Rightarrow> (Inl e, st1\<lparr>world := w\<rparr>)
         | (Inr response, w) \<Rightarrow>
             if status_code response \<noteq> 200
             then (Inl (Exception (''Perplexity API error: '' @ response_text response)),
                   st1\<lparr>world := w\<rparr>)
             else
               (case message_content response of
                  Inl e \<Rightarrow> (Inl e, st1\<lparr>world := w\<rparr>)
                | Inr raw \<Rightarrow>
                    (case extract_latex_from_response raw (content (current_resume st1)) of
                       Inl e \<Rightarrow> (Inl e, st1\<lparr>world := w\<rparr>)
                     | Inr new_content \<Rightarrow>
                         (Inr (Continue
                            (vars\<lparr>adjustment_count := adjustment_count vars + 1,
                                  adjustment_type := Some Shortened,
                                  tailored_content := new_content\<rparr>)),
                          st1\<lparr>world := w\<rparr>))))) \<and>
   (shorten_prompt latex_content job_description fill_ratio =
      shorten_prompt latex_content job_description fill_ratio' \<longleftrightarrow>
    format_2f fill_ratio = format_2f fill_ratio') \<and>
   (page_count > 1 \<and> page_count' > 1 \<and> attempt < max_optimization_attempts \<and>
    compile_latex_to_pdf env (tailored_content vars) filename_stem False st =
      (Inr (page_count, fill_ratio, final_path), st1) \<and>
    compile_latex_to_pdf env' (tailored_content vars) filename_stem False st =
      (Inr (page_count', fill_ratio', final_path'), st1) \<and>
    requests_post env' = requests_post env \<and>
    perplexity_api_key env' = perplexity_api_key env \<and>
    format_2f fill_ratio = format_2f fill_ratio' \<longrightarrow>
      loop_iteration env job_description filename_stem attempt vars st =
      loop_iteration env' job_description filename_stem attempt vars st)"
proof (intro conjI impI)
  assume "page_count > 1"
  then show "evaluate page_count fill_ratio = evaluate page_count fill_ratio'"
    and "loop_decision attempt page_count fill_ratio =
         loop_decision attempt page_count fill_ratio'"
    by (simp_all add: evaluate_def loop_decision_def)
next
  assume "compile_latex_to_pdf env tex_content filename_stem save_final st0 =
      (Inr (pages, ratio, saved_path), st2)"
  from compile_success [OF this]
  show "\<exists>(outcome::completed_process) (produced::pdf) w.
         run_pdflatex env filename_stem tex_content (world st0) =
           (Inr (outcome, Some produced), w) \<and>
         reader_pages produced = Inr pages \<and>
         ratio = calculate_fill_ratio (\<lambda>path. fitz_view produced) (filename_stem @ ''.pdf'')"
    by blast
next
  assume "page_count > 1 \<and> attempt < max_optimization_attempts \<and>
    compile_latex_to_pdf env (tailored_content vars) filename_stem False st =
      (Inr (page_count, fill_ratio, final_path), st1) \<and>
    perplexity_api_key env = Some api_key \<and> api_key \<noteq> []"
  then show "loop_iteration env job_description filename_stem attempt vars st =
        (case requests_post env api_key shorten_system_prompt
                (shorten_prompt (tailored_content vars) job_description fill_ratio)
                (world st1) of
           (Inl e, w) \<Rightarrow> (Inl e, st1\<lparr>world := w\<rparr>)
         | (Inr response, w) \<Rightarrow>
             if status_code response \<noteq> 200
             then (Inl (Exception (''Perplexity API error: '' @ response_text response)),
                   st1\<lparr>world := w\<rparr>)
             else
               (case message_content response of
                  Inl e \<Rightarrow> (Inl e, st1\<lparr>world := w\<rparr>)
                | Inr raw \<Rightarrow>
                    (case extract_latex_from_response raw (content (current_resume st1)) of
                       Inl e \<Rightarrow> (Inl e, st1\<lparr>world := w\<rparr>)
                     | Inr new_content \<Rightarrow>
                         (Inr (Continue
                            (vars\<lparr>adjustment_count := adjustment_count vars + 1,
                                  adjustment_type := Some Shortened,
                                  tailored_content := new_content\<rparr>)),
                          st1\<lparr>world := w\<rparr>))))"
    using too_long_request by blast
next
  show "shorten_prompt latex_content job_description fill_ratio =
      shorten_prompt latex_content job_description fill_ratio' \<longleftrightarrow>
    format_2f fill_ratio = format_2f fill_ratio'"
    by (rule shorten_prompt_text)
next
  assume "page_count > 1 \<and> page_count' > 1 \<and> attempt < max_optimization_attempts \<and>
    compile_latex_to_pdf env (tailored_content vars) filename_stem False st =
      (Inr (page_count, fill_ratio, final_path), st1) \<and>
    compile_latex_to_pdf env' (tailored_content vars) filename_stem False st =
      (Inr (page_count', fill_ratio', final_path'), st1) \<and>
    requests_post env' = requests_post env \<and>
    perplexity_api_key env' = perplexity_api_key env \<and>
    format_2f fill_ratio = format_2f fill_ratio'"
  then show "loop_iteration env job_description filename_stem attempt vars st =
      loop_iteration env' job_description filename_stem attempt vars st"
    using same_text_same_iteration by blast
qed

theorem decision_ignores_fill_ratio_witness:
  "(2::nat) > 1 \<and> (3::nat) > 1 \<and> 0 < max_optimization_attempts \<and>
   compile_latex_to_pdf (sample_env (sample_pdf 2 99) sample_reply)
     (tailored_content sample_vars) ''main'' False sample_state =
     (Inr (2, 0.99, None), sample_state) \<and>
   compile_latex_to_pdf (sample_env (sample_pdf 3 99.1) sample_reply)
     (tailored_content sample_vars) ''main'' False sample_state =
     (Inr (3, 0.991, None), sample_state) \<and>
   perplexity_api_key (sample_env (sample_pdf 2 99) sample_reply) = Some ''key'' \<and>
   ''key'' \<noteq> [] \<and>
   requests_post (sample_env (sample_pdf 3 99.1) sample_reply) =
     requests_post (sample_env (sample_pdf 2 99) sample_reply) \<and>
   perplexity_api_key (sample_env (sample_pdf 3 99.1) sample_reply) =
     perplexity_api_key (sample_env (sample_pdf 2 99) sample_reply) \<and>
   format_2f 0.99 = format_2f 0.991 \<and>
   evaluate 2 0.99 = evaluate 2 0.991 \<and>
   loop_decision 0 2 0.99 = loop_decision 0 2 0.991 \<and>
   (\<exists>(outcome::completed_process) (produced::pdf) w.
      run_pdflatex (sample_env (sample_pdf 2 99) sample_reply) ''main''
        (tailored_content sample_vars) (world sample_state) =
        (Inr (outcome, Some produced), w) \<and>
      reader_pages produced = Inr 2 \<and>
      0.99 = calculate_fill_ratio (\<lambda>path. fitz_view produced) (''main'' @ ''.pdf'')) \<and>
   loop_iteration (sample_env (sample_pdf 2 99) sample_reply) ''jd'' ''main'' 0 sample_vars
     sample_state =
     (Inr (Continue \<lparr>tailored_content = sample_reply, adjustment_count = 1,
                     adjustment_type = Some Shortened\<rparr>),
      sample_state\<lparr>world := [shorten_prompt sample_reply ''jd'' 0.99]\<rparr>) \<and>
   shorten_prompt sample_reply ''jd'' 0.99 = shorten_prompt sample_reply ''jd'' 0.991 \<and>
   loop_iteration (sample_env (sample_pdf 2 99) sample_reply) ''jd'' ''main'' 0 sample_vars
     sample_state =
   loop_iteration (sample_env (sample_pdf 3 99.1) sample_reply) ''jd'' ''main'' 0 sample_vars
     sample_state"
proof -
  let ?E = "sample_env (sample_pdf 2 99) sample_reply"
  let ?E' = "sample_env (sample_pdf 3 99.1) sample_reply"
  have p: "(2::nat) > 1" "(3::nat) > 1" by simp_all
  have m: "0 < max_optimization_attempts" by (simp add: max_optimization_attempts_def)
  have c: "compile_latex_to_pdf ?E (tailored_content sample_vars) ''main'' False sample_state =
             (Inr (2, 0.99, None), sample_state)"
    using sample_compile [of 99 2 sample_reply "tailored_content sample_vars" "''main''"
        sample_state]
    by simp
  have c': "compile_latex_to_pdf ?E' (tailored_content sample_vars) ''main'' False sample_state =
             (Inr (3, 0.991, None), sample_state)"
    using sample_compile [of "99.1" 3 sample_reply "tailored_content sample_vars" "''main''"
        sample_state]
    by simp
  have k: "perplexity_api_key ?E = Some ''key''" "''key'' \<noteq> []"
    by (simp_all add: sample_service)
  have s: "requests_post ?E' = requests_post ?E"
    "perplexity_api_key ?E' = perplexity_api_key ?E"
    by (simp_all add: sample_env_def)
  have t: "format_2f 0.99 = format_2f 0.991"
    using format_99 format_991 by simp
  note T = decision_ignores_fill_ratio [where page_count = 2 and page_count' = 3
      and fill_ratio = "0.99" and fill_ratio' = "0.991" and attempt = 0
      and env = ?E and env' = ?E' and vars = sample_vars and filename_stem = "''main''"
      and st = sample_state and ?st1.0 = sample_state and final_path = None
      and final_path' = None and api_key = "''key''" and job_description = "''jd''"
      and latex_content = sample_reply and tex_content = "tailored_content sample_vars"
      and save_final = False and ?st0.0 = sample_state and pages = 2 and ratio = "0.99"
      and saved_path = None and ?st2.0 = sample_state]
  note c1 = T [THEN conjunct1, THEN mp, OF p(1)]
  note c2 = T [THEN conjunct2, THEN conjunct1, THEN mp, OF c]
  note c3 = T [THEN conjunct2, THEN conjunct2, THEN conjunct1, THEN mp,
      OF conjI [OF p(1) conjI [OF m conjI [OF c conjI [OF k]]]]]
  note c4 = T [THEN conjunct2, THEN conjunct2, THEN conjunct2, THEN conjunct1]
  note c5 = T [THEN conjunct2, THEN conjunct2, THEN conjunct2, THEN conjunct2, THEN mp,
      OF conjI [OF p(1) conjI [OF p(2) conjI [OF m conjI [OF c conjI [OF c' conjI [OF s(1)
        conjI [OF s(2) t]]]]]]]]
  have i: "loop_iteration ?E ''jd'' ''main'' 0 sample_vars sample_state =
     (Inr (Continue \<lparr>tailored_content = sample_reply, adjustment_count = 1,
                     adjustment_type = Some Shortened\<rparr>),
      sample_state\<lparr>world := [shorten_prompt sample_reply ''jd'' 0.99]\<rparr>)"
    unfolding c3 by (simp add: sample_env_def sample_extract sample_vars_def sample_fields)
  have q: "shorten_prompt sample_reply ''jd'' 0.99 = shorten_prompt sample_reply ''jd'' 0.991"
    using c4 t by (rule iffD2)
  show ?thesis
    apply (intro conjI)
                   apply (rule p(1))
                  apply (rule p(2))
                 apply (rule m)
                apply (rule c)
               apply (rule c')
              apply (rule k(1))
             apply (rule k(2))
            apply (rule s(1))
           apply (rule s(2))
          apply (rule t)
         apply (rule c1 [THEN conjunct1])
        apply (rule c1 [THEN conjunct2])
       apply (rule c2)
      apply (rule i)
     apply (rule q)
    apply (rule c5)
    done
qed

subsection \<open>What an iteration leaves unchanged\<close>

lemma query_frame:
  "query_perplexity env prompt sys st = (r, st') \<Longrightarrow>
   current_resume st' = current_resume st \<and> compiled_folder st' = compiled_folder st \<and>
   rag_file st' = rag_file st"
  by (auto simp: query_perplexity_def split: option.splits if_splits prod.splits sum.splits)

lemma shorten_frame:
  "shorten_resume env c orig jd f st = (r, st') \<Longrightarrow>
   current_resume st' = current_resume st \<and> compiled_folder st' = compiled_folder st \<and>
   rag_file st' = rag_file st"
  using query_frame [of env "shorten_prompt c jd f" shorten_system_prompt st]
  by (auto simp: shorten_resume_def split: prod.splits sum.splits)

lemma expand_frame:
  "expand_resume env c orig jd f st = (r, st') \<Longrightarrow>
   current_resume st' = current_resume st \<and> compiled_folder st' = compiled_folder st \<and>
   rag_file st' = rag_file st"
  using query_frame [of env "expand_prompt c jd f" expand_system_prompt st]
  by (auto simp: expand_resume_def split: prod.splits sum.splits)


lemma iteration_frame:
  assumes "loop_iteration env jd stem attempt vars st = (r, st')"
  shows "current_resume st' = current_resume st \<and> compiled_folder st' = compiled_folder st \<and>
         rag_file st' = rag_file st"
proof (cases "compile_latex_to_pdf env (tailored_content vars) stem False st")
  case (Pair c st1)
  note c1 = compile_frame [OF Pair]
  show ?thesis
  proof (cases c)
    case (Inl e)
    with assms Pair c1 show ?thesis by (simp add: loop_iteration_def)
  next
    case (Inr t)
    obtain pc f p where t: "t = (pc, f, p)" by (cases t)
    show ?thesis
    proof (cases "loop_decision attempt pc f")
      case (Adjust a)
      show ?thesis
      proof (cases a)
        case Shortened
        obtain r2 st2 where s: "shorten_resume env (tailored_content vars)
            (content (current_resume st1)) jd f st1 = (r2, st2)" by fastforce
        from assms Pair Inr t Adjust Shortened s have "st' = st2"
          by (auto simp: loop_iteration_def split: sum.splits)
        with shorten_frame [OF s] c1 show ?thesis by simp
      next
        case Expanded
        obtain r2 st2 where s: "expand_resume env (tailored_content vars)
            (content (current_resume st1)) jd f st1 = (r2, st2)" by fastforce
        from assms Pair Inr t Adjust Expanded s have "st' = st2"
          by (auto simp: loop_iteration_def split: sum.splits)
        with expand_frame [OF s] c1 show ?thesis by simp
      qed
    next
      case Stop_could_not_fit
      with assms Pair Inr t c1 show ?thesis by (simp add: loop_iteration_def)
    next
      case Stop_optimized
      with assms Pair Inr t c1 show ?thesis by (simp add: loop_iteration_def)
    qed
  qed
qed

lemma loop_frame:
  "optimization_loop env jd stem attempts vars st = (r, st') \<Longrightarrow>
   current_resume st' = current_resume st \<and> compiled_folder st' = compiled_folder st \<and>
   rag_file st' = rag_file st"
proof (induction attempts arbitrary: vars st)
  case Nil
  then show ?case by simp
next
  case (Cons attempt attempts)
  obtain r1 st1 where i: "loop_iteration env jd stem attempt vars st = (r1, st1)" by fastforce
  note f = iteration_frame [OF i]
  show ?case
  proof (cases r1)
    case (Inl e)
    with Cons.prems i f show ?thesis by simp
  next
    case (Inr c)
    show ?thesis
    proof (cases c)
      case (Continue v)
      with Cons.prems i Inr have "optimization_loop env jd stem attempts v st1 = (r, st')"
        by simp
      from Cons.IH [OF this] f show ?thesis by simp
    next
      case (Break v)
      with Cons.prems i Inr f show ?thesis by simp
    qed
  qed
qed

subsection \<open>Bounded corrections\<close>

lemma iteration_continues:
  assumes "loop_iteration env jd stem attempt vars st = (Inr (Continue v), st')"
  shows "attempt < max_optimization_attempts \<and> adjustment_count v = adjustment_count vars + 1"
  using assms
  by (auto simp: loop_iteration_def loop_decision_def
      split: prod.splits sum.splits decision.splits adjustment.splits verdict.splits if_splits)

lemma iteration_breaks:
  assumes "loop_iteration env jd stem attempt vars st = (Inr (Break v), st')"
  shows "v = vars"
  using assms
  by (auto simp: loop_iteration_def
      split: prod.splits sum.splits decision.splits adjustment.splits)

lemma loop_bound:
  "optimization_loop env jd stem attempts vars st = (Inr v, st') \<Longrightarrow>
   adjustment_count v \<le>
     adjustment_count vars + length (filter (\<lambda>a. a < max_optimization_attempts) attempts)"
proof (induction attempts arbitrary: vars st)
  case Nil
  then show ?case by simp
next
  case (Cons attempt attempts)
  obtain r1 st1 where i: "loop_iteration env jd stem attempt vars st = (r1, st1)" by fastforce
  show ?case
  proof (cases r1)
    case (Inl e)
    with Cons.prems i show ?thesis by simp
  next
    case (Inr c)
    show ?thesis
    proof (cases c)
      case (Continue w)
      with Cons.prems i Inr have "optimization_loop env jd stem attempts w st1 = (Inr v, st')"
        by simp
      from Cons.IH [OF this] iteration_continues [OF i [unfolded Inr Continue]]
      show ?thesis by simp
    next
      case (Break w)
      with Cons.prems i Inr iteration_breaks [OF i [unfolded Inr Break]]
      show ?thesis by simp
    qed
  qed
qed

lemma attempts_list: "[0..<max_optimization_attempts + 1] = [0, 1, 2, 3, 4] @ [5]"
  by (simp add: max_optimization_attempts_def upt_rec)

lemma iteration_break_early:
  assumes "loop_iteration env jd stem attempt vars st = (Inr (Break v), st')"
      and "attempt < max_optimization_attempts"
  shows "\<exists>pc f p. compile_latex_to_pdf env (tailored_content vars) stem False st =
                     (Inr (pc, f, p), st') \<and> evaluate pc f = In_range"
proof -
  obtain c st1 where k: "compile_latex_to_pdf env (tailored_content vars) stem False st = (c, st1)"
    by fastforce
  from assms(1) k obtain pc f p where c: "c = Inr (pc, f, p)"
    by (cases c) (auto simp: loop_iteration_def)
  have e: "evaluate pc f = In_range"
    using assms k c
    by (cases "evaluate pc f")
      (auto simp: loop_iteration_def loop_decision_def split: prod.splits sum.splits)
  then have "loop_decision attempt pc f = Stop_optimized"
    by (simp add: loop_decision_def)
  with assms(1) k c have "st' = st1"
    by (simp add: loop_iteration_def)
  with k c e show ?thesis by blast
qed

subsection \<open>The loop as a sequence of correction rounds\<close>

lemma in_range_iff:
  "evaluate page_count fill_ratio = In_range \<longleftrightarrow>
     page_count \<le> 1 \<and> 0.88 \<le> fill_ratio \<and> fill_ratio \<le> 0.96"
  by (auto simp: loop_defs)

lemma round_is_iteration:
  assumes "attempt < max_optimization_attempts"
  shows "loop_iteration env jd stem attempt vars st = (Inr (Continue w), s2) \<longleftrightarrow>
         correction_round env jd stem vars st = Some (w, s2)"
proof (cases "compile_latex_to_pdf env (tailored_content vars) stem False st")
  case (Pair c st1)
  show ?thesis
  proof (cases c)
    case (Inl e)
    with Pair show ?thesis by (simp add: loop_iteration_def correction_round_def)
  next
    case (Inr t)
    obtain pc f p where t: "t = (pc, f, p)" by (cases t)
    consider (long) "pc > 1" | (sparse) "\<not> pc > 1" "f < 0.88"
      | (dense) "\<not> pc > 1" "\<not> f < 0.88" "f > 0.96"
      | (band) "\<not> pc > 1" "\<not> f < 0.88" "\<not> f > 0.96"
      by blast
    then show ?thesis
    proof cases
      case long
      with assms Pair Inr t show ?thesis
        by (auto simp: loop_iteration_def correction_round_def loop_defs shorten_resume_def
            query_perplexity_def split: option.splits prod.splits sum.splits if_splits)
    next
      case sparse
      with assms Pair Inr t show ?thesis
        by (auto simp: loop_iteration_def correction_round_def loop_defs expand_resume_def
            query_perplexity_def split: option.splits prod.splits sum.splits if_splits)
    next
      case dense
      with assms Pair Inr t show ?thesis
        by (auto simp: loop_iteration_def correction_round_def loop_defs shorten_resume_def
            query_perplexity_def split: option.splits prod.splits sum.splits if_splits)
    next
      case band
      with assms Pair Inr t show ?thesis
        by (auto simp: loop_iteration_def correction_round_def loop_defs)
    qed
  qed
qed

lemma round_counts:
  "correction_round env jd stem vars st = Some (w, s2) \<Longrightarrow>
   adjustment_count w = adjustment_count vars + 1 \<and> adjustment_type w \<noteq> None"
  by (auto simp: correction_round_def split: option.splits prod.splits sum.splits if_splits)

lemma rounds_count:
  "correction_rounds env jd stem n vars st = Some (w, s2) \<Longrightarrow>
   adjustment_count w = adjustment_count vars + n \<and> (0 < n \<longrightarrow> adjustment_type w \<noteq> None)"
proof (induction n arbitrary: vars st)
  case 0
  then show ?case by simp
next
  case (Suc n)
  then obtain v1 s1 where r: "correction_round env jd stem vars st = Some (v1, s1)"
    and rest: "correction_rounds env jd stem n v1 s1 = Some (w, s2)"
    by (auto split: option.splits)
  from Suc.IH [OF rest] round_counts [OF r] show ?case
    by (cases n) (use rest in auto)
qed

lemma iteration_break_render:
  assumes "loop_iteration env jd stem attempt vars st = (Inr (Break v), st')"
  shows "\<exists>pc f p. compile_latex_to_pdf env (tailored_content vars) stem False st =
                     (Inr (pc, f, p), st')"
  using assms
  by (auto simp: loop_iteration_def
      split: prod.splits sum.splits decision.splits adjustment.splits)

lemma iteration_stops:
  assumes "compile_latex_to_pdf env (tailored_content vars) stem False st = (Inr (pc, f, p), st')"
      and "\<not> attempt < max_optimization_attempts \<or> evaluate pc f = In_range"
  shows "loop_iteration env jd stem attempt vars st = (Inr (Break vars), st')"
  using assms
  by (cases "evaluate pc f") (auto simp: loop_iteration_def loop_decision_def)

lemma rounds_then_loop:
  "\<forall>a\<in>set attempts. a < max_optimization_attempts \<Longrightarrow>
   correction_rounds env jd stem (length attempts) vars st = Some (vm, sm) \<Longrightarrow>
   optimization_loop env jd stem (attempts @ rest) vars st =
     optimization_loop env jd stem rest vm sm"
proof (induction attempts arbitrary: vars st)
  case Nil
  then show ?case by simp
next
  case (Cons a attempts)
  from Cons.prems(2) obtain v1 s1 where r: "correction_round env jd stem vars st = Some (v1, s1)"
    and rest: "correction_rounds env jd stem (length attempts) v1 s1 = Some (vm, sm)"
    by (auto split: option.splits)
  from Cons.prems(1) have a: "a < max_optimization_attempts"
    and as: "\<forall>a\<in>set attempts. a < max_optimization_attempts"
    by simp_all
  from round_is_iteration [OF a, THEN iffD2, OF r] have
    "loop_iteration env jd stem a vars st = (Inr (Continue v1), s1)" .
  with Cons.IH [OF as rest] show ?case by simp
qed

lemma loop_is_rounds:
  assumes "\<not> last_attempt < max_optimization_attempts"
  shows "\<forall>a\<in>set attempts. a < max_optimization_attempts \<Longrightarrow>
         optimization_loop env jd stem (attempts @ [last_attempt]) vars st = (Inr v, st') \<Longrightarrow>
         \<exists>n sm pc f p.
           n \<le> length attempts \<and>
           correction_rounds env jd stem n vars st = Some (v, sm) \<and>
           compile_latex_to_pdf env (tailored_content v) stem False sm = (Inr (pc, f, p), st') \<and>
           (n = length attempts \<or> evaluate pc f = In_range)"
proof (induction attempts arbitrary: vars st)
  case Nil
  obtain r1 st1 where i: "loop_iteration env jd stem last_attempt vars st = (r1, st1)"
    by fastforce
  show ?case
  proof (cases r1)
    case (Inl e)
    with Nil i show ?thesis by simp
  next
    case (Inr c)
    show ?thesis
    proof (cases c)
      case (Continue w)
      with iteration_continues [OF i [unfolded Inr Continue]] assms show ?thesis by simp
    next
      case (Break w)
      with Nil i Inr have e: "v = w" "st' = st1" by simp_all
      from iteration_breaks [OF i [unfolded Inr Break]] have w: "w = vars" .
      from iteration_break_render [OF i [unfolded Inr Break]] e w obtain pc f p where
        "compile_latex_to_pdf env (tailored_content v) stem False st = (Inr (pc, f, p), st')"
        by auto
      with e w show ?thesis
        by (intro exI [of _ 0] exI [of _ st] exI [of _ pc] exI [of _ f] exI [of _ p]) auto
    qed
  qed
next
  case (Cons a attempts)
  then have a: "a < max_optimization_attempts"
    and rest: "\<forall>a\<in>set attempts. a < max_optimization_attempts"
    by simp_all
  obtain r1 st1 where i: "loop_iteration env jd stem a vars st = (r1, st1)"
    by fastforce
  show ?case
  proof (cases r1)
    case (Inl e)
    with Cons.prems i show ?thesis by simp
  next
    case (Inr c)
    show ?thesis
    proof (cases c)
      case (Continue w)
      with Cons.prems i Inr
      have "optimization_loop env jd stem (attempts @ [last_attempt]) w st1 = (Inr v, st')"
        by simp
      from Cons.IH [OF rest this] obtain n sm pc f p where
        n: "n \<le> length attempts" "correction_rounds env jd stem n w st1 = Some (v, sm)"
           "compile_latex_to_pdf env (tailored_content v) stem False sm = (Inr (pc, f, p), st')"
           "n = length attempts \<or> evaluate pc f = In_range"
        by blast
      from i Inr Continue have "loop_iteration env jd stem a vars st = (Inr (Continue w), st1)"
        by simp
      from round_is_iteration [OF a, THEN iffD1, OF this] have
        "correction_round env jd stem vars st = Some (w, st1)" .
      with n have "correction_rounds env jd stem (Suc n) vars st = Some (v, sm)" by simp
      with n show ?thesis
        by (intro exI [of _ "Suc n"] exI [of _ sm] exI [of _ pc] exI [of _ f] exI [of _ p]) auto
    next
      case (Break w)
      with Cons.prems i Inr have e: "v = w" "st' = st1" by simp_all
      from iteration_breaks [OF i [unfolded Inr Break]] have w: "w = vars" .
      from iteration_break_early [OF i [unfolded Inr Break] a] e w obtain pc f p where
        "compile_latex_to_pdf env (tailored_content v) stem False st = (Inr (pc, f, p), st')"
        "evaluate pc f = In_range"
        by auto
      with e w show ?thesis
        by (intro exI [of _ 0] exI [of _ st] exI [of _ pc] exI [of _ f] exI [of _ p]) auto
    qed
  qed
qed

subsection \<open>The last attempt\<close>

lemma accept_while_attempts_remain:
  assumes "attempt < max_optimization_attempts"
  shows "loop_iteration env jd stem attempt vars st = (Inr (Break v), st') \<longleftrightarrow>
         v = vars \<and>
         (\<exists>pc f p. compile_latex_to_pdf env (tailored_content vars) stem False st =
                      (Inr (pc, f, p), st') \<and>
                    pc \<le> 1 \<and> 0.88 \<le> f \<and> f \<le> 0.96)"
proof
  assume b: "loop_iteration env jd stem attempt vars st = (Inr (Break v), st')"
  from iteration_break_early [OF b assms] iteration_breaks [OF b] in_range_iff
  show "v = vars \<and>
         (\<exists>pc f p. compile_latex_to_pdf env (tailored_content vars) stem False st =
                      (Inr (pc, f, p), st') \<and>
                    pc \<le> 1 \<and> 0.88 \<le> f \<and> f \<le> 0.96)"
    by blast
next
  assume "v = vars \<and>
         (\<exists>pc f p. compile_latex_to_pdf env (tailored_content vars) stem False st =
                      (Inr (pc, f, p), st') \<and>
                    pc \<le> 1 \<and> 0.88 \<le> f \<and> f \<le> 0.96)"
  then obtain pc f p where v: "v = vars"
    and c: "compile_latex_to_pdf env (tailored_content vars) stem False st =
              (Inr (pc, f, p), st')"
    and r: "evaluate pc f = In_range"
    using in_range_iff by blast
  from iteration_stops [OF c] r v
  show "loop_iteration env jd stem attempt vars st = (Inr (Break v), st')"
    by simp
qed

text \<open>
  Claim C4. The loop is to leave through its branch of success, without a correction, exactly
  when the render has one page and a fill ratio between 0.88 and 0.96. While attempts are
  left the code does so (\<open>accept_while_attempts_remain\<close>). At the last attempt it does not: a render of one page with fill ratio 0.50 is too sparse and outside the band,
  yet the iteration falls through to the branch commented
  \<^verbatim>\<open># Success: 1 page and fill ratio in range\<close> and leaves the loop as optimized, where the
  branch of the page count at the same attempt stops with a warning. The run below renders
  one page of fill ratio 0.50 six times: five expansions, then the branch of success.
\<close>

theorem success_branch_out_of_band:
  "compile_latex_to_pdf (sample_env (sample_pdf 1 50) sample_reply)
     (tailored_content sample_vars) ''main'' False sample_state =
     (Inr (1, 0.5, None), sample_state) \<and>
   evaluate 1 0.5 = Too_sparse \<and>
   \<not> (0.88 \<le> (0.5::real) \<and> (0.5::real) \<le> 0.96) \<and>
   loop_decision 5 1 0.5 = Stop_optimized \<and>
   loop_decision 5 2 0.5 = Stop_could_not_fit \<and>
   loop_iteration (sample_env (sample_pdf 1 50) sample_reply) ''jd'' ''main'' 5 sample_vars
     sample_state = (Inr (Break sample_vars), sample_state) \<and>
   optimization_loop (sample_env (sample_pdf 1 50) sample_reply) ''jd'' ''main''
     [0..<max_optimization_attempts + 1] sample_vars sample_state =
     (Inr \<lparr>tailored_content = sample_reply, adjustment_count = 5,
           adjustment_type = Some Expanded\<rparr>,
      sample_state\<lparr>world := replicate 5 (expand_prompt sample_reply ''jd'' 0.5)\<rparr>)"
proof -
  let ?E = "sample_env (sample_pdf 1 50) sample_reply"
  note c = sample_compile [of 50, simplified]
  have 1: "compile_latex_to_pdf ?E (tailored_content sample_vars) ''main'' False sample_state =
     (Inr (1, 0.5, None), sample_state)"
    using c by simp
  have 2: "evaluate 1 0.5 = Too_sparse" "\<not> (0.88 \<le> (0.5::real) \<and> (0.5::real) \<le> 0.96)"
    "loop_decision 5 1 0.5 = Stop_optimized" "loop_decision 5 2 0.5 = Stop_could_not_fit"
    by (simp_all add: loop_defs)
  have 3: "loop_iteration ?E ''jd'' ''main'' 5 sample_vars sample_state =
      (Inr (Break sample_vars), sample_state)"
    by (simp add: loop_iteration_def c loop_defs)
  have 4: "optimization_loop ?E ''jd'' ''main'' [0..<max_optimization_attempts + 1] sample_vars
      sample_state =
     (Inr \<lparr>tailored_content = sample_reply, adjustment_count = 5,
           adjustment_type = Some Expanded\<rparr>,
      sample_state\<lparr>world := replicate 5 (expand_prompt sample_reply ''jd'' 0.5)\<rparr>)"
    unfolding attempts_list
    by (simp add: loop_iteration_def c loop_defs sample_expand sample_vars_def sample_fields
        replicate_5)
  from 1 2 3 4 show ?thesis by blast
qed

subsection \<open>The run of the route\<close>

lemma tailor_run_success:
  assumes "query_perplexity env
             (tailor_prompt (content (current_resume st)) rag_context job_description)
             tailor_system_prompt st = (Inr raw, s0)"
      and "extract_latex_from_response raw (content (current_resume s0)) = Inr doc"
      and "optimization_loop env job_description
             (document_stem (current_resume s0))
             [0..<max_optimization_attempts + 1]
             \<lparr>tailored_content = doc, adjustment_count = 0, adjustment_type = None\<rparr> s0 =
             (Inr v, s1)"
      and "compile_latex_to_pdf env (tailored_content v)
             (document_stem (current_resume s0))
             True s1 = (Inr (pc, f, Some name), s2)"
  shows "tailor_run env job_description rag_context st =
           (Inr \<lparr>json_original_filename = filename (current_resume s2),
                 json_file_type = file_type (current_resume s2),
                 json_tailored_resume = tailored_content v,
                 json_page_count = pc,
                 json_fill_ratio = round_2 f,
                 json_was_adjusted = (adjustment_count v > 0),
                 json_adjustment_count = adjustment_count v,
                 json_adjustment_type = adjustment_type v,
                 json_compiled_pdf_url = ''/compiled/'' @ name\<rparr>, s2)"
  unfolding tailor_run_def Let_def assms(1) prod.case sum.case assms(2) assms(3) assms(4)
    option.case
  by (rule refl)

lemma length_attempts: "length [0::nat, 1, 2, 3, 4] = 5"
  by simp

lemma tailor_run_rounds:
  assumes "tailor_run env jd rag st = (Inr result, st')"
  shows "\<exists>raw s0 doc k v sm pc f p sl pc' f' (outcome::completed_process) (produced::pdf).
           query_perplexity env (tailor_prompt (content (current_resume st)) rag jd)
             tailor_system_prompt st = (Inr raw, s0) \<and>
           extract_latex_from_response raw (content (current_resume st)) = Inr doc \<and>
           k \<le> 5 \<and>
           correction_rounds env jd (document_stem (current_resume st)) k
             \<lparr>tailored_content = doc, adjustment_count = 0, adjustment_type = None\<rparr> s0 =
             Some (v, sm) \<and>
           compile_latex_to_pdf env (tailored_content v) (document_stem (current_resume st))
             False sm = (Inr (pc, f, p), sl) \<and>
           (k = 5 \<or> (pc \<le> 1 \<and> 0.88 \<le> f \<and> f \<le> 0.96)) \<and>
           compile_latex_to_pdf env (tailored_content v) (document_stem (current_resume st))
             True sl =
             (Inr (pc', f', Some (document_stem (current_resume st) @ ''.pdf'')), st') \<and>
           run_pdflatex env (document_stem (current_resume st)) (tailored_content v) (world sl) =
             (Inr (outcome, Some produced), world st') \<and>
           compiled_folder st' =
             (compiled_folder st)(document_stem (current_resume st) @ ''.pdf'' \<mapsto> produced) \<and>
           json_tailored_resume result = tailored_content v \<and>
           json_adjustment_count result = k \<and>
           json_was_adjusted result = (0 < k) \<and>
           json_compiled_pdf_url result =
             ''/compiled/'' @ document_stem (current_resume st) @ ''.pdf''"
proof -
  let ?stem = "document_stem (current_resume st)"
  obtain r0 s0 where q0: "query_perplexity env
      (tailor_prompt (content (current_resume st)) rag jd) tailor_system_prompt st = (r0, s0)"
    by fastforce
  note f0 = query_frame [OF q0]
  from assms q0 obtain raw where r0: "r0 = Inr raw"
    by (cases r0) (auto simp: tailor_run_def)
  from assms q0 r0 obtain doc where
    x0: "extract_latex_from_response raw (content (current_resume s0)) = Inr doc"
    by (cases "extract_latex_from_response raw (content (current_resume s0))")
      (auto simp: tailor_run_def)
  obtain r1 s1 where o: "optimization_loop env jd (document_stem (current_resume s0))
      [0..<max_optimization_attempts + 1]
      \<lparr>tailored_content = doc, adjustment_count = 0, adjustment_type = None\<rparr> s0 = (r1, s1)"
    by fastforce
  from assms q0 r0 x0 o obtain v where v: "r1 = Inr v"
    by (cases r1) (auto simp: tailor_run_def Let_def simp del: upt_Suc)
  note f1 = loop_frame [OF o]
  have m: "\<not> 5 < max_optimization_attempts"
    "\<forall>a\<in>set [0, 1, 2, 3, 4]. a < max_optimization_attempts"
    by (simp_all add: max_optimization_attempts_def)
  from loop_is_rounds [OF m o [unfolded v attempts_list], unfolded length_attempts]
  obtain k sm pc f p where
    r: "k \<le> 5"
       "correction_rounds env jd (document_stem (current_resume s0)) k
          \<lparr>tailored_content = doc, adjustment_count = 0, adjustment_type = None\<rparr> s0 =
          Some (v, sm)"
       "compile_latex_to_pdf env (tailored_content v) (document_stem (current_resume s0))
          False sm = (Inr (pc, f, p), s1)"
       "k = 5 \<or> evaluate pc f = In_range"
    by blast
  from rounds_count [OF r(2)] have n: "adjustment_count v = k" by simp
  obtain r2 s2 where k: "compile_latex_to_pdf env (tailored_content v)
      (document_stem (current_resume s0)) True s1 = (r2, s2)"
    by fastforce
  from assms q0 r0 x0 o v k obtain pc' f' p' where r2: "r2 = Inr (pc', f', p')"
    by (cases r2) (auto simp: tailor_run_def Let_def simp del: upt_Suc)
  from compile_success [OF k [unfolded r2]] obtain outcome :: completed_process
    and produced :: pdf and w where
    c: "run_pdflatex env (document_stem (current_resume s0)) (tailored_content v) (world s1) =
          (Inr (outcome, Some produced), w)"
       "p' = Some (document_stem (current_resume s0) @ ''.pdf'')"
       "s2 = s1\<lparr>world := w, compiled_folder :=
               (compiled_folder s1)(document_stem (current_resume s0) @ ''.pdf'' \<mapsto> produced)\<rparr>"
    by auto
  from tailor_run_success [OF q0 [unfolded r0] x0 o [unfolded v] k [unfolded r2 c(2)]] assms
  have res: "result = \<lparr>json_original_filename = filename (current_resume s2),
                 json_file_type = file_type (current_resume s2),
                 json_tailored_resume = tailored_content v,
                 json_page_count = pc',
                 json_fill_ratio = round_2 f',
                 json_was_adjusted = (adjustment_count v > 0),
                 json_adjustment_count = adjustment_count v,
                 json_adjustment_type = adjustment_type v,
                 json_compiled_pdf_url =
                   ''/compiled/'' @ document_stem (current_resume s0) @ ''.pdf''\<rparr>"
    and st': "st' = s2"
    by simp_all
  have s: "document_stem (current_resume s0) = ?stem" "current_resume s0 = current_resume st"
    using f0 by simp_all
  have 1: "query_perplexity env (tailor_prompt (content (current_resume st)) rag jd)
             tailor_system_prompt st = (Inr raw, s0)"
    using q0 r0 by simp
  have 2: "extract_latex_from_response raw (content (current_resume st)) = Inr doc"
    using x0 s by simp
  have 3: "correction_rounds env jd ?stem k
             \<lparr>tailored_content = doc, adjustment_count = 0, adjustment_type = None\<rparr> s0 =
             Some (v, sm)"
    using r(2) s by simp
  have 4: "compile_latex_to_pdf env (tailored_content v) ?stem False sm = (Inr (pc, f, p), s1)"
    using r(3) s by simp
  have 5: "k = 5 \<or> (pc \<le> 1 \<and> 0.88 \<le> f \<and> f \<le> 0.96)"
    using r(4) in_range_iff [of pc f] by blast
  have 6: "compile_latex_to_pdf env (tailored_content v) ?stem True s1 =
             (Inr (pc', f', Some (?stem @ ''.pdf'')), st')"
    using k r2 c(2) s st' by simp
  have 7: "run_pdflatex env ?stem (tailored_content v) (world s1) =
             (Inr (outcome, Some produced), world st')"
    using c(1) c(3) st' s by simp
  have 8: "compiled_folder st' = (compiled_folder st)(?stem @ ''.pdf'' \<mapsto> produced)"
    using c(3) st' f0 f1 by simp
  have 9: "json_tailored_resume result = tailored_content v"
    "json_adjustment_count result = k" "json_was_adjusted result = (0 < k)"
    "json_compiled_pdf_url result = ''/compiled/'' @ ?stem @ ''.pdf''"
    using res n s by simp_all
  show ?thesis
    apply (intro exI conjI)
                apply (rule 1)
               apply (rule 2)
              apply (rule r(1))
             apply (rule 3)
            apply (rule 4)
           apply (rule 5)
          apply (rule 6)
         apply (rule 7)
        apply (rule 8)
       apply (rule 9)+
    done
qed

lemma five_rounds_run:
  assumes q: "query_perplexity env (tailor_prompt (content (current_resume st)) rag jd)
                tailor_system_prompt st = (Inr raw, s0)"
      and x: "extract_latex_from_response raw (content (current_resume st)) = Inr doc"
      and r: "correction_rounds env jd (document_stem (current_resume st)) 5
                \<lparr>tailored_content = doc, adjustment_count = 0, adjustment_type = None\<rparr> s0 =
                Some (v, sm)"
      and l: "compile_latex_to_pdf env (tailored_content v) (document_stem (current_resume st))
                False sm = (Inr (pc, f, p), sl)"
      and k: "compile_latex_to_pdf env (tailored_content v) (document_stem (current_resume st))
                True sl = (Inr (pc', f', path), st')"
  shows "optimization_loop env jd (document_stem (current_resume st))
           [0..<max_optimization_attempts + 1]
           \<lparr>tailored_content = doc, adjustment_count = 0, adjustment_type = None\<rparr> s0 =
           (Inr v, sl) \<and>
         tailor_run env jd rag st =
           (Inr \<lparr>json_original_filename = filename (current_resume st),
                 json_file_type = file_type (current_resume st),
                 json_tailored_resume = tailored_content v,
                 json_page_count = pc',
                 json_fill_ratio = round_2 f',
                 json_was_adjusted = True,
                 json_adjustment_count = 5,
                 json_adjustment_type = adjustment_type v,
                 json_compiled_pdf_url =
                   ''/compiled/'' @ document_stem (current_resume st) @ ''.pdf''\<rparr>, st') \<and>
         (\<exists>(outcome::completed_process) (produced::pdf).
            run_pdflatex env (document_stem (current_resume st)) (tailored_content v) (world sl) =
              (Inr (outcome, Some produced), world st') \<and>
            compiled_folder st' =
              (compiled_folder st)(document_stem (current_resume st) @ ''.pdf'' \<mapsto> produced))"
proof -
  let ?stem = "document_stem (current_resume st)"
  let ?vars = "\<lparr>tailored_content = doc, adjustment_count = 0, adjustment_type = None\<rparr>"
  note f0 = query_frame [OF q]
  have s: "document_stem (current_resume s0) = ?stem" "current_resume s0 = current_resume st"
    using f0 by simp_all
  have m: "\<forall>a\<in>set [0, 1, 2, 3, 4]. a < max_optimization_attempts"
    by (simp add: max_optimization_attempts_def)
  have r': "correction_rounds env jd ?stem (length [0::nat, 1, 2, 3, 4]) ?vars s0 = Some (v, sm)"
    unfolding length_attempts by (rule r)
  have "optimization_loop env jd ?stem [0..<max_optimization_attempts + 1] ?vars s0 =
          optimization_loop env jd ?stem [5] v sm"
    unfolding attempts_list by (rule rounds_then_loop [OF m r'])
  moreover have "loop_iteration env jd ?stem 5 v sm = (Inr (Break v), sl)"
    by (rule iteration_stops [OF l]) (simp add: max_optimization_attempts_def)
  ultimately have o: "optimization_loop env jd ?stem [0..<max_optimization_attempts + 1] ?vars s0 =
      (Inr v, sl)"
    by simp
  from rounds_count [OF r] have n: "adjustment_count v = 5" by simp
  from compile_success [OF k] obtain outcome :: completed_process
    and produced :: pdf and w where
    c: "run_pdflatex env ?stem (tailored_content v) (world sl) = (Inr (outcome, Some produced), w)"
       "path = Some (?stem @ ''.pdf'')"
       "st' = sl\<lparr>world := w, compiled_folder :=
                (compiled_folder sl)(?stem @ ''.pdf'' \<mapsto> produced)\<rparr>"
    by auto
  note f1 = loop_frame [OF o]
  note f2 = compile_frame [OF k]
  have x': "extract_latex_from_response raw (content (current_resume s0)) = Inr doc"
    unfolding s(2) by (rule x)
  have o': "optimization_loop env jd (document_stem (current_resume s0))
              [0..<max_optimization_attempts + 1] ?vars s0 = (Inr v, sl)"
    unfolding s(1) by (rule o)
  have k': "compile_latex_to_pdf env (tailored_content v) (document_stem (current_resume s0))
              True sl = (Inr (pc', f', Some (document_stem (current_resume s0) @ ''.pdf'')), st')"
    unfolding s(1) c(2) [symmetric] by (rule k)
  have t: "tailor_run env jd rag st =
           (Inr \<lparr>json_original_filename = filename (current_resume st'),
                 json_file_type = file_type (current_resume st'),
                 json_tailored_resume = tailored_content v,
                 json_page_count = pc',
                 json_fill_ratio = round_2 f',
                 json_was_adjusted = (adjustment_count v > 0),
                 json_adjustment_count = adjustment_count v,
                 json_adjustment_type = adjustment_type v,
                 json_compiled_pdf_url = ''/compiled/'' @ (?stem @ ''.pdf'')\<rparr>, st')"
    using tailor_run_success [OF q x' o' k'] unfolding s(1) .
  have cr: "current_resume st' = current_resume st"
    using f0 f1 f2 by simp
  have 1: "tailor_run env jd rag st =
           (Inr \<lparr>json_original_filename = filename (current_resume st),
                 json_file_type = file_type (current_resume st),
                 json_tailored_resume = tailored_content v,
                 json_page_count = pc',
                 json_fill_ratio = round_2 f',
                 json_was_adjusted = True,
                 json_adjustment_count = 5,
                 json_adjustment_type = adjustment_type v,
                 json_compiled_pdf_url =
                   ''/compiled/'' @ ?stem @ ''.pdf''\<rparr>, st')"
    using t n cr by simp
  have 2: "run_pdflatex env ?stem (tailored_content v) (world sl) =
             (Inr (outcome, Some produced), world st')"
    using c by simp
  have 3: "compiled_folder st' = (compiled_folder st)(?stem @ ''.pdf'' \<mapsto> produced)"
    using c f0 f1 by simp
  from o 1 2 3 show ?thesis by blast
qed

section \<open>Properties of the tailoring request\<close>

lemma sample_run_in_band:
  "tailor_resume (sample_env (sample_pdf 1 92) sample_reply)
     (Some [''job_description'' \<mapsto> ''jd'']) sample_state =
   (Success \<lparr>json_original_filename = ''main.tex'', json_file_type = ''tex'',
             json_tailored_resume = sample_reply, json_page_count = 1, json_fill_ratio = 0.92,
             json_was_adjusted = False, json_adjustment_count = 0, json_adjustment_type = None,
             json_compiled_pdf_url = ''/compiled/main.pdf''\<rparr>,
    sample_state\<lparr>world := [tailor_prompt sample_original [] ''jd''],
                 compiled_folder := [''main.pdf'' \<mapsto> sample_pdf 1 92]\<rparr>)"
proof -
  let ?env = "sample_env (sample_pdf 1 92) sample_reply"
  have n: "content (current_resume sample_state) \<noteq> []"
    unfolding sample_state_def by code_simp
  have q0: "query_perplexity ?env
              (tailor_prompt (content (current_resume sample_state))
                 (load_rag_context sample_state) ''jd'')
              tailor_system_prompt sample_state =
            (Inr sample_reply,
             sample_state\<lparr>world := world sample_state @
               [tailor_prompt (content (current_resume sample_state))
                  (load_rag_context sample_state) ''jd'']\<rparr>)"
    by (rule sample_query)
  have o: "optimization_loop ?env ''jd'' stem [0..<max_optimization_attempts + 1]
             \<lparr>tailored_content = sample_reply, adjustment_count = 0, adjustment_type = None\<rparr> st =
           (Inr \<lparr>tailored_content = sample_reply, adjustment_count = 0, adjustment_type = None\<rparr>, st)"
    for st stem
    unfolding attempts_list
    by (simp add: loop_iteration_def sample_compile [of 92, simplified] loop_defs)
  have k: "compile_latex_to_pdf ?env
             (tailored_content
               \<lparr>tailored_content = sample_reply, adjustment_count = 0, adjustment_type = None\<rparr>)
             stem True st =
           (Inr (1, 92 / 100, Some (stem @ ''.pdf'')),
            st\<lparr>compiled_folder := (compiled_folder st)(stem @ ''.pdf'' \<mapsto> sample_pdf 1 92)\<rparr>)"
    for st stem
    using sample_compile_final [of 92 1 sample_reply _ stem st] by simp
  note t = tailor_run_success [OF q0 sample_extract o k]
  show ?thesis
    using n t
    by (simp add: tailor_resume_def)
      (simp add: sample_stem, simp add: sample_state_def load_rag_context_def round_92)
qed


lemma tailor_run_frame:
  assumes "tailor_run env jd rag st = (r, st')"
  shows "current_resume st' = current_resume st \<and> rag_file st' = rag_file st"
proof -
  obtain r0 s0 where q0: "query_perplexity env
      (tailor_prompt (content (current_resume st)) rag jd) tailor_system_prompt st = (r0, s0)"
    by fastforce
  note f0 = query_frame [OF q0]
  show ?thesis
  proof (cases r0)
    case (Inl e)
    with assms q0 f0 show ?thesis by (simp add: tailor_run_def)
  next
    case (Inr raw)
    show ?thesis
    proof (cases "extract_latex_from_response raw (content (current_resume s0))")
      case (Inl e)
      with assms q0 Inr f0 show ?thesis by (simp add: tailor_run_def)
    next
      case x0: (Inr doc)
      obtain r1 s1 where o: "optimization_loop env jd (document_stem (current_resume s0))
          [0..<max_optimization_attempts + 1]
          \<lparr>tailored_content = doc, adjustment_count = 0, adjustment_type = None\<rparr> s0 = (r1, s1)"
        by fastforce
      note f1 = loop_frame [OF o]
      show ?thesis
      proof (cases r1)
        case (Inl e)
        with assms q0 Inr x0 o f0 f1 show ?thesis
          by (simp add: tailor_run_def Let_def del: upt_Suc)
      next
        case v: (Inr v)
        obtain r2 s2 where k: "compile_latex_to_pdf env (tailored_content v)
            (document_stem (current_resume s0)) True s1 = (r2, s2)"
          by fastforce
        note f2 = compile_frame [OF k]
        from assms q0 Inr x0 o v k have "st' = s2"
          by (auto simp: tailor_run_def Let_def simp del: upt_Suc split: sum.splits option.splits)
        with f0 f1 f2 show ?thesis by simp
      qed
    qed
  qed
qed

lemma tailor_run_result:
  assumes "tailor_run env jd rag st = (Inr result, st')"
  shows "\<exists>w outcome produced.
           run_pdflatex env (document_stem (current_resume st)) (json_tailored_resume result) w =
             (Inr (outcome, Some produced), world st') \<and>
           compiled_folder st' =
             (compiled_folder st)(document_stem (current_resume st) @ ''.pdf'' \<mapsto> produced) \<and>
           json_compiled_pdf_url result =
             ''/compiled/'' @ document_stem (current_resume st) @ ''.pdf'' \<and>
           json_adjustment_count result \<le> 5"
proof -
  obtain r0 s0 where q0: "query_perplexity env
      (tailor_prompt (content (current_resume st)) rag jd) tailor_system_prompt st = (r0, s0)"
    by fastforce
  note f0 = query_frame [OF q0]
  from assms q0 obtain raw where r0: "r0 = Inr raw"
    by (cases r0) (auto simp: tailor_run_def)
  from assms q0 r0 obtain doc where
    x0: "extract_latex_from_response raw (content (current_resume s0)) = Inr doc"
    by (cases "extract_latex_from_response raw (content (current_resume s0))")
      (auto simp: tailor_run_def)
  obtain r1 s1 where o: "optimization_loop env jd (document_stem (current_resume s0))
      [0..<max_optimization_attempts + 1]
      \<lparr>tailored_content = doc, adjustment_count = 0, adjustment_type = None\<rparr> s0 = (r1, s1)"
    by fastforce
  from assms q0 r0 x0 o obtain v where v: "r1 = Inr v"
    by (cases r1) (auto simp: tailor_run_def Let_def simp del: upt_Suc)
  note f1 = loop_frame [OF o]
  from loop_bound [OF o [unfolded v attempts_list]] have b: "adjustment_count v \<le> 5"
    by (simp add: max_optimization_attempts_def)
  obtain r2 s2 where k: "compile_latex_to_pdf env (tailored_content v)
      (document_stem (current_resume s0)) True s1 = (r2, s2)"
    by fastforce
  from assms q0 r0 x0 o v k obtain pc f p where r2: "r2 = Inr (pc, f, p)"
    by (cases r2) (auto simp: tailor_run_def Let_def simp del: upt_Suc)
  from compile_success [OF k [unfolded r2]] obtain outcome produced w where
    c: "run_pdflatex env (document_stem (current_resume s0)) (tailored_content v) (world s1) =
          (Inr (outcome, Some produced), w)"
       "p = Some (document_stem (current_resume s0) @ ''.pdf'')"
       "s2 = s1\<lparr>world := w, compiled_folder :=
               (compiled_folder s1)(document_stem (current_resume s0) @ ''.pdf'' \<mapsto> produced)\<rparr>"
    by auto
  from tailor_run_success [OF q0 [unfolded r0] x0 o [unfolded v] k [unfolded r2 c(2)]] assms
  have res: "result = \<lparr>json_original_filename = filename (current_resume s2),
                 json_file_type = file_type (current_resume s2),
                 json_tailored_resume = tailored_content v,
                 json_page_count = pc,
                 json_fill_ratio = round_2 f,
                 json_was_adjusted = (adjustment_count v > 0),
                 json_adjustment_count = adjustment_count v,
                 json_adjustment_type = adjustment_type v,
                 json_compiled_pdf_url =
                   ''/compiled/'' @ document_stem (current_resume s0) @ ''.pdf''\<rparr>"
    and st': "st' = s2"
    by simp_all
  have "run_pdflatex env (document_stem (current_resume st)) (json_tailored_resume result)
          (world s1) = (Inr (outcome, Some produced), world st')"
    using c res st' f0 by simp
  moreover have "compiled_folder st' =
      (compiled_folder st)(document_stem (current_resume st) @ ''.pdf'' \<mapsto> produced)"
    using c st' f0 f1 by simp
  moreover have "json_compiled_pdf_url result =
      ''/compiled/'' @ document_stem (current_resume st) @ ''.pdf''"
    using res f0 by simp
  moreover have "json_adjustment_count result \<le> 5"
    using res b by simp
  ultimately show ?thesis by blast
qed

text \<open>
  Claim C5, as stated, fails: after a successful run the stored resume is still the uploaded
  one, not the tailored source of the answer.
\<close>

theorem write_back_counterexample:
  "fst (tailor_resume (sample_env (sample_pdf 1 92) sample_reply)
          (Some [''job_description'' \<mapsto> ''jd'']) sample_state) =
     Success \<lparr>json_original_filename = ''main.tex'', json_file_type = ''tex'',
               json_tailored_resume = sample_reply, json_page_count = 1, json_fill_ratio = 0.92,
               json_was_adjusted = False, json_adjustment_count = 0, json_adjustment_type = None,
               json_compiled_pdf_url = ''/compiled/main.pdf''\<rparr> \<and>
   content (current_resume (snd (tailor_resume (sample_env (sample_pdf 1 92) sample_reply)
          (Some [''job_description'' \<mapsto> ''jd'']) sample_state))) = sample_original \<and>
   sample_original \<noteq> sample_reply"
proof -
  have "sample_original \<noteq> sample_reply" by code_simp
  then show ?thesis
    unfolding sample_run_in_band by (simp add: sample_state_def)
qed

text \<open>
  Claim C5, amended. No run of the route changes \<^verbatim>\<open>current_resume\<close>. After a successful
  run the compiled folder differs from the one before the run in one file only, the PDF named
  after the stem of the resume's file name, and this file is the PDF that \<^verbatim>\<open>pdflatex\<close>
  produced in its last run from the tailored source returned in the answer.
\<close>

theorem tailoring_keeps_current_resume:
  "current_resume (snd (tailor_resume env data st)) = current_resume st \<and>
   (tailor_resume env data st = (Success result, st') \<longrightarrow>
      (\<exists>w outcome produced.
         run_pdflatex env (document_stem (current_resume st)) (json_tailored_resume result) w =
           (Inr (outcome, Some produced), world st') \<and>
         compiled_folder st' =
           (compiled_folder st)(document_stem (current_resume st) @ ''.pdf'' \<mapsto> produced) \<and>
         json_compiled_pdf_url result =
           ''/compiled/'' @ document_stem (current_resume st) @ ''.pdf''))"
proof -
  have a: "current_resume (snd (tailor_resume env data st)) = current_resume st"
  proof (cases data)
    case None
    then show ?thesis by (simp add: tailor_resume_def)
  next
    case (Some json)
    show ?thesis
    proof (cases "json ''job_description''")
      case None
      with Some show ?thesis by (simp add: tailor_resume_def)
    next
      case jd: (Some jd)
      obtain r s1 where t: "tailor_run env jd (load_rag_context st) st = (r, s1)" by fastforce
      from tailor_run_frame [OF t] Some jd t show ?thesis
        by (cases r) (simp_all add: tailor_resume_def)
    qed
  qed
  have b: "\<exists>w outcome produced.
         run_pdflatex env (document_stem (current_resume st)) (json_tailored_resume result) w =
           (Inr (outcome, Some produced), world st') \<and>
         compiled_folder st' =
           (compiled_folder st)(document_stem (current_resume st) @ ''.pdf'' \<mapsto> produced) \<and>
         json_compiled_pdf_url result =
           ''/compiled/'' @ document_stem (current_resume st) @ ''.pdf''"
    if s: "tailor_resume env data st = (Success result, st')"
  proof -
    from s obtain json where d: "data = Some json"
      by (cases data) (auto simp: tailor_resume_def)
    from s d obtain jd where j: "json ''job_description'' = Some jd"
      by (cases "json ''job_description''") (auto simp: tailor_resume_def)
    obtain r s1 where t: "tailor_run env jd (load_rag_context st) st = (r, s1)" by fastforce
    from s d j t have "r = Inr result" "s1 = st'"
      by (cases r; auto simp: tailor_resume_def split: if_splits)+
    with t have "tailor_run env jd (load_rag_context st) st = (Inr result, st')" by simp
    from tailor_run_result [OF this] show ?thesis by blast
  qed
  from a b show ?thesis by blast
qed

theorem tailoring_keeps_current_resume_witness:
  "tailor_resume (sample_env (sample_pdf 1 92) sample_reply)
     (Some [''job_description'' \<mapsto> ''jd'']) sample_state =
   (Success \<lparr>json_original_filename = ''main.tex'', json_file_type = ''tex'',
             json_tailored_resume = sample_reply, json_page_count = 1, json_fill_ratio = 0.92,
             json_was_adjusted = False, json_adjustment_count = 0, json_adjustment_type = None,
             json_compiled_pdf_url = ''/compiled/main.pdf''\<rparr>,
    sample_state\<lparr>world := [tailor_prompt sample_original [] ''jd''],
                 compiled_folder := [''main.pdf'' \<mapsto> sample_pdf 1 92]\<rparr>) \<and>
   current_resume (sample_state\<lparr>world := [tailor_prompt sample_original [] ''jd''],
                 compiled_folder := [''main.pdf'' \<mapsto> sample_pdf 1 92]\<rparr>) =
     current_resume sample_state \<and>
   (\<exists>w outcome produced.
         run_pdflatex (sample_env (sample_pdf 1 92) sample_reply)
           (document_stem (current_resume sample_state)) sample_reply w =
           (Inr (outcome, Some produced), [tailor_prompt sample_original [] ''jd'']) \<and>
         [''main.pdf'' \<mapsto> sample_pdf 1 92] =
           (compiled_folder sample_state)
             (document_stem (current_resume sample_state) @ ''.pdf'' \<mapsto> produced))"
  using sample_run_in_band
    tailoring_keeps_current_resume [where env = "sample_env (sample_pdf 1 92) sample_reply"
      and data = "Some [''job_description'' \<mapsto> ''jd'']" and st = sample_state
      and result = "\<lparr>json_original_filename = ''main.tex'', json_file_type = ''tex'',
             json_tailored_resume = sample_reply, json_page_count = 1, json_fill_ratio = 0.92,
             json_was_adjusted = False, json_adjustment_count = 0, json_adjustment_type = None,
             json_compiled_pdf_url = ''/compiled/main.pdf''\<rparr>"
      and st' = "sample_state\<lparr>world := [tailor_prompt sample_original [] ''jd''],
                 compiled_folder := [''main.pdf'' \<mapsto> sample_pdf 1 92]\<rparr>"]
  by simp blast

subsection \<open>Runs that never comply\<close>

lemma sample_round:
  "correction_round (sample_env (sample_pdf 2 99) sample_reply) jd stem vars st =
     Some (vars\<lparr>adjustment_count := adjustment_count vars + 1,
                adjustment_type := Some Shortened,
                tailored_content := sample_reply\<rparr>,
           st\<lparr>world := world st @ [shorten_prompt (tailored_content vars) jd (99 / 100)]\<rparr>)"
proof -
  have a: "0 < max_optimization_attempts" by (simp add: max_optimization_attempts_def)
  have "loop_iteration (sample_env (sample_pdf 2 99) sample_reply) jd stem 0 vars st =
     (Inr (Continue (vars\<lparr>adjustment_count := adjustment_count vars + 1,
                adjustment_type := Some Shortened,
                tailored_content := sample_reply\<rparr>)),
           st\<lparr>world := world st @ [shorten_prompt (tailored_content vars) jd (99 / 100)]\<rparr>)"
    by (simp add: loop_iteration_def sample_compile [of 99, simplified] loop_defs sample_shorten)
  then show ?thesis by (rule round_is_iteration [OF a, THEN iffD1])
qed

lemma sample_rounds:
  "correction_rounds (sample_env (sample_pdf 2 99) sample_reply) ''jd'' ''main'' 5 sample_vars st =
     Some (\<lparr>tailored_content = sample_reply, adjustment_count = 5,
            adjustment_type = Some Shortened\<rparr>,
           st\<lparr>world := world st @ replicate 5 (shorten_prompt sample_reply ''jd'' (99 / 100))\<rparr>)"
proof -
  have five: "(5::nat) = Suc (Suc (Suc (Suc (Suc 0))))" by simp
  show ?thesis unfolding five by (simp add: sample_round sample_vars_def)
qed

text \<open>
  Claim C2. A run of the route is a request for the tailored source, followed by correction
  rounds (\<open>correction_rounds\<close>: each renders the current source, finds the render
  unacceptable and replaces the source by the answer to one correction request), one more
  render at which the loop stops, and the final render that stores the PDF. Every successful
  run has at most 5 rounds, and fewer than 5 only if the render at which the loop stopped has
  at most one page and a fill ratio between 0.88 and 0.96: so a run in which the page count
  stays above 1 or the fill ratio stays outside the band has exactly 5. Conversely, when five
  rounds in a row take place and the two renders after them succeed, whatever they measure,
  the loop ends with the source of the fifth round, the run succeeds and reports 5
  adjustments, and the PDF stored under the name of the resume is the one \<^verbatim>\<open>pdflatex\<close>
  produced from that source in the final render. The loop is a recursion over the six
  attempts, so it terminates in every case.
\<close>

theorem never_compliant_run:
  assumes "json ''job_description'' = Some jd"
      and "content (current_resume st) \<noteq> []"
  shows "(tailor_resume env (Some json) st = (Success result, st') \<longrightarrow>
          (\<exists>raw s0 doc k v sm pc f p sl pc' f' (outcome::completed_process) (produced::pdf).
             query_perplexity env
               (tailor_prompt (content (current_resume st)) (load_rag_context st) jd)
               tailor_system_prompt st = (Inr raw, s0) \<and>
             extract_latex_from_response raw (content (current_resume st)) = Inr doc \<and>
             k \<le> 5 \<and>
             correction_rounds env jd (document_stem (current_resume st)) k
               \<lparr>tailored_content = doc, adjustment_count = 0, adjustment_type = None\<rparr> s0 =
               Some (v, sm) \<and>
             compile_latex_to_pdf env (tailored_content v) (document_stem (current_resume st))
               False sm = (Inr (pc, f, p), sl) \<and>
             (k = 5 \<or> (pc \<le> 1 \<and> 0.88 \<le> f \<and> f \<le> 0.96)) \<and>
             compile_latex_to_pdf env (tailored_content v) (document_stem (current_resume st))
               True sl =
               (Inr (pc', f', Some (document_stem (current_resume st) @ ''.pdf'')), st') \<and>
             run_pdflatex env (document_stem (current_resume st)) (tailored_content v)
               (world sl) = (Inr (outcome, Some produced), world st') \<and>
             compiled_folder st' =
               (compiled_folder st)(document_stem (current_resume st) @ ''.pdf'' \<mapsto> produced) \<and>
             json_tailored_resume result = tailored_content v \<and>
             json_adjustment_count result = k \<and>
             json_was_adjusted result = (0 < k) \<and>
             json_compiled_pdf_url result =
               ''/compiled/'' @ document_stem (current_resume st) @ ''.pdf'')) \<and>
         (query_perplexity env
            (tailor_prompt (content (current_resume st)) (load_rag_context st) jd)
            tailor_system_prompt st = (Inr raw, s0) \<and>
          extract_latex_from_response raw (content (current_resume st)) = Inr doc \<and>
          correction_rounds env jd (document_stem (current_resume st)) 5
            \<lparr>tailored_content = doc, adjustment_count = 0, adjustment_type = None\<rparr> s0 =
            Some (final, sm) \<and>
          compile_latex_to_pdf env (tailored_content final) (document_stem (current_resume st))
            False sm = (Inr (pc, f, p), sl) \<and>
          compile_latex_to_pdf env (tailored_content final) (document_stem (current_resume st))
            True sl = (Inr (pc', f', path), s2) \<longrightarrow>
          optimization_loop env jd (document_stem (current_resume st))
            [0..<max_optimization_attempts + 1]
            \<lparr>tailored_content = doc, adjustment_count = 0, adjustment_type = None\<rparr> s0 =
            (Inr final, sl) \<and>
          tailor_resume env (Some json) st =
            (Success \<lparr>json_original_filename = filename (current_resume st),
                      json_file_type = file_type (current_resume st),
                      json_tailored_resume = tailored_content final,
                      json_page_count = pc',
                      json_fill_ratio = round_2 f',
                      json_was_adjusted = True,
                      json_adjustment_count = 5,
                      json_adjustment_type = adjustment_type final,
                      json_compiled_pdf_url =
                        ''/compiled/'' @ document_stem (current_resume st) @ ''.pdf''\<rparr>, s2) \<and>
          (\<exists>(outcome::completed_process) (produced::pdf).
             run_pdflatex env (document_stem (current_resume st)) (tailored_content final)
               (world sl) = (Inr (outcome, Some produced), world s2) \<and>
             compiled_folder s2 =
               (compiled_folder st)(document_stem (current_resume st) @ ''.pdf'' \<mapsto> produced)))"
proof (intro conjI impI)
  assume "tailor_resume env (Some json) st = (Success result, st')"
  with assms have "tailor_run env jd (load_rag_context st) st = (Inr result, st')"
    by (auto simp: tailor_resume_def split: prod.splits sum.splits)
  then show "\<exists>raw s0 doc k v sm pc f p sl pc' f' (outcome::completed_process) (produced::pdf).
             query_perplexity env
               (tailor_prompt (content (current_resume st)) (load_rag_context st) jd)
               tailor_system_prompt st = (Inr raw, s0) \<and>
             extract_latex_from_response raw (content (current_resume st)) = Inr doc \<and>
             k \<le> 5 \<and>
             correction_rounds env jd (document_stem (current_resume st)) k
               \<lparr>tailored_content = doc, adjustment_count = 0, adjustment_type = None\<rparr> s0 =
               Some (v, sm) \<and>
             compile_latex_to_pdf env (tailored_content v) (document_stem (current_resume st))
               False sm = (Inr (pc, f, p), sl) \<and>
             (k = 5 \<or> (pc \<le> 1 \<and> 0.88 \<le> f \<and> f \<le> 0.96)) \<and>
             compile_latex_to_pdf env (tailored_content v) (document_stem (current_resume st))
               True sl =
               (Inr (pc', f', Some (document_stem (current_resume st) @ ''.pdf'')), st') \<and>
             run_pdflatex env (document_stem (current_resume st)) (tailored_content v)
               (world sl) = (Inr (outcome, Some produced), world st') \<and>
             compiled_folder st' =
               (compiled_folder st)(document_stem (current_resume st) @ ''.pdf'' \<mapsto> produced) \<and>
             json_tailored_resume result = tailored_content v \<and>
             json_adjustment_count result = k \<and>
             json_was_adjusted result = (0 < k) \<and>
             json_compiled_pdf_url result =
               ''/compiled/'' @ document_stem (current_resume st) @ ''.pdf''"
    by (rule tailor_run_rounds)
next
  assume h: "query_perplexity env
            (tailor_prompt (content (current_resume st)) (load_rag_context st) jd)
            tailor_system_prompt st = (Inr raw, s0) \<and>
          extract_latex_from_response raw (content (current_resume st)) = Inr doc \<and>
          correction_rounds env jd (document_stem (current_resume st)) 5
            \<lparr>tailored_content = doc, adjustment_count = 0, adjustment_type = None\<rparr> s0 =
            Some (final, sm) \<and>
          compile_latex_to_pdf env (tailored_content final) (document_stem (current_resume st))
            False sm = (Inr (pc, f, p), sl) \<and>
          compile_latex_to_pdf env (tailored_content final) (document_stem (current_resume st))
            True sl = (Inr (pc', f', path), s2)"
  note run = five_rounds_run [OF h [THEN conjunct1] h [THEN conjunct2, THEN conjunct1]
      h [THEN conjunct2, THEN conjunct2, THEN conjunct1]
      h [THEN conjunct2, THEN conjunct2, THEN conjunct2, THEN conjunct1]
      h [THEN conjunct2, THEN conjunct2, THEN conjunct2, THEN conjunct2]]
  from run show "optimization_loop env jd (document_stem (current_resume st))
            [0..<max_optimization_attempts + 1]
            \<lparr>tailored_content = doc, adjustment_count = 0, adjustment_type = None\<rparr> s0 =
            (Inr final, sl)"
    by (rule conjunct1)
  from run [THEN conjunct2, THEN conjunct1] assms
  show "tailor_resume env (Some json) st =
            (Success \<lparr>json_original_filename = filename (current_resume st),
                      json_file_type = file_type (current_resume st),
                      json_tailored_resume = tailored_content final,
                      json_page_count = pc',
                      json_fill_ratio = round_2 f',
                      json_was_adjusted = True,
                      json_adjustment_count = 5,
                      json_adjustment_type = adjustment_type final,
                      json_compiled_pdf_url =
                        ''/compiled/'' @ document_stem (current_resume st) @ ''.pdf''\<rparr>, s2)"
    by (simp add: tailor_resume_def)
  from run [THEN conjunct2, THEN conjunct2]
  show "\<exists>(outcome::completed_process) (produced::pdf).
             run_pdflatex env (document_stem (current_resume st)) (tailored_content final)
               (world sl) = (Inr (outcome, Some produced), world s2) \<and>
             compiled_folder s2 =
               (compiled_folder st)(document_stem (current_resume st) @ ''.pdf'' \<mapsto> produced)" .
qed

theorem never_compliant_run_witness:
  "([''job_description'' \<mapsto> ''jd''] ''job_description'' = Some ''jd'') \<and>
   (content (current_resume sample_state) \<noteq> []) \<and>
   (query_perplexity (sample_env (sample_pdf 2 99) sample_reply)
     (tailor_prompt (content (current_resume sample_state)) (load_rag_context sample_state) ''jd'')
     tailor_system_prompt sample_state = (Inr sample_reply, (sample_state\<lparr>world := [tailor_prompt sample_original [] ''jd'']\<rparr>))) \<and>
   (extract_latex_from_response sample_reply (content (current_resume sample_state)) = Inr sample_reply) \<and>
   (correction_rounds (sample_env (sample_pdf 2 99) sample_reply) ''jd'' (document_stem (current_resume sample_state)) 5
     \<lparr>tailored_content = sample_reply, adjustment_count = 0, adjustment_type = None\<rparr>
     (sample_state\<lparr>world := [tailor_prompt sample_original [] ''jd'']\<rparr>) =
     Some (\<lparr>tailored_content = sample_reply, adjustment_count = 5, adjustment_type = Some Shortened\<rparr>,
           (sample_state\<lparr>world := tailor_prompt sample_original [] ''jd'' # replicate 5 (shorten_prompt sample_reply ''jd'' 0.99)\<rparr>))) \<and>
   (compile_latex_to_pdf (sample_env (sample_pdf 2 99) sample_reply)
     (tailored_content \<lparr>tailored_content = sample_reply, adjustment_count = 5, adjustment_type = Some Shortened\<rparr>)
     (document_stem (current_resume sample_state)) False
     (sample_state\<lparr>world := tailor_prompt sample_original [] ''jd'' # replicate 5 (shorten_prompt sample_reply ''jd'' 0.99)\<rparr>) =
     (Inr (2, 0.99, None), (sample_state\<lparr>world := tailor_prompt sample_original [] ''jd'' # replicate 5 (shorten_prompt sample_reply ''jd'' 0.99)\<rparr>))) \<and>
   (\<not> ((2::nat) \<le> 1 \<and> (0.88::real) \<le> 0.99 \<and> (0.99::real) \<le> 0.96)) \<and>
   (compile_latex_to_pdf (sample_env (sample_pdf 2 99) sample_reply)
     (tailored_content \<lparr>tailored_content = sample_reply, adjustment_count = 5, adjustment_type = Some Shortened\<rparr>)
     (document_stem (current_resume sample_state)) True
     (sample_state\<lparr>world := tailor_prompt sample_original [] ''jd'' # replicate 5 (shorten_prompt sample_reply ''jd'' 0.99)\<rparr>) =
     (Inr (2, 0.99, Some (''main.pdf'')),
      (sample_state\<lparr>world := tailor_prompt sample_original [] ''jd'' # replicate 5 (shorten_prompt sample_reply ''jd'' 0.99),
        compiled_folder := [''main.pdf'' \<mapsto> sample_pdf 2 99]\<rparr>))) \<and>
   (tailor_resume (sample_env (sample_pdf 2 99) sample_reply) (Some [''job_description'' \<mapsto> ''jd'']) sample_state =
     (Success \<lparr>json_original_filename = ''main.tex'', json_file_type = ''tex'',
        json_tailored_resume = sample_reply, json_page_count = 2, json_fill_ratio = 0.99,
        json_was_adjusted = True, json_adjustment_count = 5,
        json_adjustment_type = Some Shortened,
        json_compiled_pdf_url = ''/compiled/main.pdf''\<rparr>,
      (sample_state\<lparr>world := tailor_prompt sample_original [] ''jd'' # replicate 5 (shorten_prompt sample_reply ''jd'' 0.99),
        compiled_folder := [''main.pdf'' \<mapsto> sample_pdf 2 99]\<rparr>))) \<and>
   ((\<exists>raw s0 doc k v sm pc f p sl pc' f' (outcome::completed_process) (produced::pdf).
             query_perplexity (sample_env (sample_pdf 2 99) sample_reply)
               (tailor_prompt (content (current_resume sample_state)) (load_rag_context sample_state) ''jd'')
               tailor_system_prompt sample_state = (Inr raw, s0) \<and>
             extract_latex_from_response raw (content (current_resume sample_state)) = Inr doc \<and>
             k \<le> 5 \<and>
             correction_rounds (sample_env (sample_pdf 2 99) sample_reply) ''jd'' (document_stem (current_resume sample_state)) k
               \<lparr>tailored_content = doc, adjustment_count = 0, adjustment_type = None\<rparr> s0 =
               Some (v, sm) \<and>
             compile_latex_to_pdf (sample_env (sample_pdf 2 99) sample_reply) (tailored_content v) (document_stem (current_resume sample_state))
               False sm = (Inr (pc, f, p), sl) \<and>
             (k = 5 \<or> (pc \<le> 1 \<and> 0.88 \<le> f \<and> f \<le> 0.96)) \<and>
             compile_latex_to_pdf (sample_env (sample_pdf 2 99) sample_reply) (tailored_content v) (document_stem (current_resume sample_state))
               True sl =
               (Inr (pc', f', Some (document_stem (current_resume sample_state) @ ''.pdf'')), (sample_state\<lparr>world := tailor_prompt sample_original [] ''jd'' # replicate 5 (shorten_prompt sample_reply ''jd'' 0.99),
        compiled_folder := [''main.pdf'' \<mapsto> sample_pdf 2 99]\<rparr>)) \<and>
             run_pdflatex (sample_env (sample_pdf 2 99) sample_reply) (document_stem (current_resume sample_state)) (tailored_content v)
               (world sl) = (Inr (outcome, Some produced), world (sample_state\<lparr>world := tailor_prompt sample_original [] ''jd'' # replicate 5 (shorten_prompt sample_reply ''jd'' 0.99),
        compiled_folder := [''main.pdf'' \<mapsto> sample_pdf 2 99]\<rparr>)) \<and>
             compiled_folder (sample_state\<lparr>world := tailor_prompt sample_original [] ''jd'' # replicate 5 (shorten_prompt sample_reply ''jd'' 0.99),
        compiled_folder := [''main.pdf'' \<mapsto> sample_pdf 2 99]\<rparr>) =
               (compiled_folder sample_state)(document_stem (current_resume sample_state) @ ''.pdf'' \<mapsto> produced) \<and>
             json_tailored_resume \<lparr>json_original_filename = ''main.tex'', json_file_type = ''tex'',
        json_tailored_resume = sample_reply, json_page_count = 2, json_fill_ratio = 0.99,
        json_was_adjusted = True, json_adjustment_count = 5,
        json_adjustment_type = Some Shortened,
        json_compiled_pdf_url = ''/compiled/main.pdf''\<rparr> = tailored_content v \<and>
             json_adjustment_count \<lparr>json_original_filename = ''main.tex'', json_file_type = ''tex'',
        json_tailored_resume = sample_reply, json_page_count = 2, json_fill_ratio = 0.99,
        json_was_adjusted = True, json_adjustment_count = 5,
        json_adjustment_type = Some Shortened,
        json_compiled_pdf_url = ''/compiled/main.pdf''\<rparr> = k \<and>
             json_was_adjusted \<lparr>json_original_filename = ''main.tex'', json_file_type = ''tex'',
        json_tailored_resume = sample_reply, json_page_count = 2, json_fill_ratio = 0.99,
        json_was_adjusted = True, json_adjustment_count = 5,
        json_adjustment_type = Some Shortened,
        json_compiled_pdf_url = ''/compiled/main.pdf''\<rparr> = (0 < k) \<and>
             json_compiled_pdf_url \<lparr>json_original_filename = ''main.tex'', json_file_type = ''tex'',
        json_tailored_resume = sample_reply, json_page_count = 2, json_fill_ratio = 0.99,
        json_was_adjusted = True, json_adjustment_count = 5,
        json_adjustment_type = Some Shortened,
        json_compiled_pdf_url = ''/compiled/main.pdf''\<rparr> =
               ''/compiled/'' @ document_stem (current_resume sample_state) @ ''.pdf''))"
proof -
  have j: "[''job_description'' \<mapsto> ''jd''] ''job_description'' = Some ''jd''"
    by simp
  have n: "content (current_resume sample_state) \<noteq> []"
    unfolding sample_state_def by code_simp
  have q: "query_perplexity (sample_env (sample_pdf 2 99) sample_reply)
     (tailor_prompt (content (current_resume sample_state)) (load_rag_context sample_state) ''jd'')
     tailor_system_prompt sample_state = (Inr sample_reply, (sample_state\<lparr>world := [tailor_prompt sample_original [] ''jd'']\<rparr>))"
    by (simp add: sample_query sample_fields)
  have x: "extract_latex_from_response sample_reply (content (current_resume sample_state)) = Inr sample_reply"
    by (rule sample_extract)
  have r: "correction_rounds (sample_env (sample_pdf 2 99) sample_reply) ''jd'' (document_stem (current_resume sample_state)) 5
     \<lparr>tailored_content = sample_reply, adjustment_count = 0, adjustment_type = None\<rparr>
     (sample_state\<lparr>world := [tailor_prompt sample_original [] ''jd'']\<rparr>) =
     Some (\<lparr>tailored_content = sample_reply, adjustment_count = 5, adjustment_type = Some Shortened\<rparr>,
           (sample_state\<lparr>world := tailor_prompt sample_original [] ''jd'' # replicate 5 (shorten_prompt sample_reply ''jd'' 0.99)\<rparr>))"
    by (simp add: sample_stem sample_rounds [unfolded sample_vars_def])
  have l: "compile_latex_to_pdf (sample_env (sample_pdf 2 99) sample_reply)
     (tailored_content \<lparr>tailored_content = sample_reply, adjustment_count = 5, adjustment_type = Some Shortened\<rparr>)
     (document_stem (current_resume sample_state)) False
     (sample_state\<lparr>world := tailor_prompt sample_original [] ''jd'' # replicate 5 (shorten_prompt sample_reply ''jd'' 0.99)\<rparr>) =
     (Inr (2, 0.99, None), (sample_state\<lparr>world := tailor_prompt sample_original [] ''jd'' # replicate 5 (shorten_prompt sample_reply ''jd'' 0.99)\<rparr>))"
    by (simp add: sample_compile [of 99, simplified])
  have nc: "\<not> ((2::nat) \<le> 1 \<and> (0.88::real) \<le> 0.99 \<and> (0.99::real) \<le> 0.96)"
    by simp
  have k: "compile_latex_to_pdf (sample_env (sample_pdf 2 99) sample_reply)
     (tailored_content \<lparr>tailored_content = sample_reply, adjustment_count = 5, adjustment_type = Some Shortened\<rparr>)
     (document_stem (current_resume sample_state)) True
     (sample_state\<lparr>world := tailor_prompt sample_original [] ''jd'' # replicate 5 (shorten_prompt sample_reply ''jd'' 0.99)\<rparr>) =
     (Inr (2, 0.99, Some (''main.pdf'')),
      (sample_state\<lparr>world := tailor_prompt sample_original [] ''jd'' # replicate 5 (shorten_prompt sample_reply ''jd'' 0.99),
        compiled_folder := [''main.pdf'' \<mapsto> sample_pdf 2 99]\<rparr>))"
    by (simp add: sample_compile_final [of 99, simplified] sample_stem sample_fields)
  note b = never_compliant_run [where env = "(sample_env (sample_pdf 2 99) sample_reply)" and st = sample_state and jd = "''jd''"
      and json = "[''job_description'' \<mapsto> ''jd'']" and raw = sample_reply and doc = sample_reply
      and ?s0.0 = "(sample_state\<lparr>world := [tailor_prompt sample_original [] ''jd'']\<rparr>)"
      and final = "\<lparr>tailored_content = sample_reply, adjustment_count = 5, adjustment_type = Some Shortened\<rparr>"
      and sm = "(sample_state\<lparr>world := tailor_prompt sample_original [] ''jd'' # replicate 5 (shorten_prompt sample_reply ''jd'' 0.99)\<rparr>)"
      and sl = "(sample_state\<lparr>world := tailor_prompt sample_original [] ''jd'' # replicate 5 (shorten_prompt sample_reply ''jd'' 0.99)\<rparr>)"
      and ?s2.0 = "(sample_state\<lparr>world := tailor_prompt sample_original [] ''jd'' # replicate 5 (shorten_prompt sample_reply ''jd'' 0.99),
        compiled_folder := [''main.pdf'' \<mapsto> sample_pdf 2 99]\<rparr>)"
      and pc = 2 and f = "0.99" and p = None and pc' = 2 and f' = "0.99"
      and path = "Some ''main.pdf''",
      OF j n, THEN conjunct2, THEN mp, OF conjI [OF q conjI [OF x conjI [OF r conjI [OF l k]]]]]
  have run: "tailor_resume (sample_env (sample_pdf 2 99) sample_reply) (Some [''job_description'' \<mapsto> ''jd'']) sample_state =
     (Success \<lparr>json_original_filename = ''main.tex'', json_file_type = ''tex'',
        json_tailored_resume = sample_reply, json_page_count = 2, json_fill_ratio = 0.99,
        json_was_adjusted = True, json_adjustment_count = 5,
        json_adjustment_type = Some Shortened,
        json_compiled_pdf_url = ''/compiled/main.pdf''\<rparr>,
      (sample_state\<lparr>world := tailor_prompt sample_original [] ''jd'' # replicate 5 (shorten_prompt sample_reply ''jd'' 0.99),
        compiled_folder := [''main.pdf'' \<mapsto> sample_pdf 2 99]\<rparr>))"
    using b [THEN conjunct2, THEN conjunct1]
    by (simp add: sample_fields round_99 sample_stem)
  note a = never_compliant_run [where env = "(sample_env (sample_pdf 2 99) sample_reply)" and st = sample_state and jd = "''jd''"
      and json = "[''job_description'' \<mapsto> ''jd'']"
      and result = "\<lparr>json_original_filename = ''main.tex'', json_file_type = ''tex'',
        json_tailored_resume = sample_reply, json_page_count = 2, json_fill_ratio = 0.99,
        json_was_adjusted = True, json_adjustment_count = 5,
        json_adjustment_type = Some Shortened,
        json_compiled_pdf_url = ''/compiled/main.pdf''\<rparr>"
      and st' = "(sample_state\<lparr>world := tailor_prompt sample_original [] ''jd'' # replicate 5 (shorten_prompt sample_reply ''jd'' 0.99),
        compiled_folder := [''main.pdf'' \<mapsto> sample_pdf 2 99]\<rparr>)",
      OF j n, THEN conjunct1, THEN mp, OF run]
  show ?thesis
    by (intro conjI) (rule j n q x r l nc k run a)+
qed

end
